theory Spec2Isabelle
  imports Main "HOL-Library.AList" "HOL-Library.Sublist"
begin

section \<open>Python values\<close>

text \<open>
  The bot keeps its state in two JSON files, \<^verbatim>\<open>data/bot_settings.json\<close> (one object)
  and \<^verbatim>\<open>data/post_log.json\<close> (a list of objects). A loaded JSON document is a value of
  \<open>json\<close>; a Python \<^verbatim>\<open>dict\<close> is an association list in insertion order, read with
  \<open>map_of\<close> and written with \<open>AList.update\<close> (replace in place, or append a new key),
  which is what \<^verbatim>\<open>d[k] = v\<close> does. JSON numbers with a fraction are left out: the
  program never writes one. A \<open>char\<close> stands for one character of an ASCII
  \<^verbatim>\<open>str\<close>, and the string functions below follow Python on ASCII text; the one
  literal outside ASCII is written as its UTF-8 bytes.
\<close>

datatype json =
    JNull
  | JBool bool
  | JInt int
  | JStr string
  | JArr "json list"
  | JObj "(string \<times> json) list"

type_synonym dict = "(string \<times> json) list"

datatype py_error =
  TypeError | ValueError | ConflictingIdError | JobLookupError | UnknownTimeZoneError





section \<open>The post log and the engagement tracker\<close>





text \<open>
  \<^verbatim>\<open>append_log\<close> (lines 127--139): the entry a publish run appends. \<open>now\<close> is the
  UTC timestamp the function reads from the clock.
\<close>

definition new_entry ::
  "string \<Rightarrow> int \<Rightarrow> int \<Rightarrow> string \<Rightarrow> string \<Rightarrow> string \<Rightarrow> json \<Rightarrow> dict" where
  "new_entry now chat_id tg_message_id rubric destination tone vk_post_id =
     [(''datetime_iso'', JStr now),
      (''chat_id'', JInt chat_id),
      (''tg_message_id'', JInt tg_message_id),
      (''rubric'', JStr rubric),
      (''destination'', JStr destination),
      (''tone'', JStr tone),
      (''vk_post_id'', vk_post_id),
      (''replies_count'', JInt 0)]"

definition append_log ::
  "string \<Rightarrow> int \<Rightarrow> int \<Rightarrow> string \<Rightarrow> string \<Rightarrow> string \<Rightarrow> json \<Rightarrow> dict list \<Rightarrow> dict list" where
  "append_log now chat_id tg_message_id rubric destination tone vk_post_id log =
     log @ [new_entry now chat_id tg_message_id rubric destination tone vk_post_id]"

section \<open>The settings store\<close>

text \<open>
  \<^verbatim>\<open>DEFAULT_SETTINGS\<close> (lines 35--47). \<^verbatim>\<open>TIMEZONE\<close> is read from the environment
  when the module is imported, so it is a parameter here. The default destination is the
  Cyrillic name of Istanbul, written as its UTF-8 bytes.
\<close>

definition Stambul :: string where
  "Stambul = [CHR 0xD0, CHR 0xA1, CHR 0xD1, CHR 0x82, CHR 0xD0, CHR 0xB0, CHR 0xD0, CHR 0xBC,
              CHR 0xD0, CHR 0xB1, CHR 0xD1, CHR 0x83, CHR 0xD0, CHR 0xBB]"

definition DEFAULT_SETTINGS :: "string \<Rightarrow> dict" where
  "DEFAULT_SETTINGS TIMEZONE =
     [(''target_chat_id'', JNull),
      (''timezone'', JStr TIMEZONE),
      (''rubric'', JStr ''TIPS''),
      (''destination'', JStr Stambul),
      (''season'', JNull),
      (''tone'', JStr ''FRIENDLY''),
      (''audience'', JNull),
      (''constraints'', JArr []),
      (''schedule'', JObj [(''enabled'', JBool False), (''time'', JStr ''09:30''),
                           (''frequency'', JStr ''daily'')]),
      (''crosspost_vk'', JBool True),
      (''last_used'', JObj [(''rubric'', JNull), (''destination'', JNull), (''date'', JNull)])]"

text \<open>
  \<^verbatim>\<open>load_settings\<close> (lines 81--94). The settings file is missing, or opening or parsing
  it raises, or \<^verbatim>\<open>json.load\<close> returns a document. The loop
  \<^verbatim>\<open>for k, v in DEFAULT_SETTINGS.items(): if k not in data: data[k] = v\<close> is \<open>backfill\<close>;
  \<^verbatim>\<open>k in data\<close> is a key test on a dict, a membership test on a list, a substring test
  on a string and a \<^verbatim>\<open>TypeError\<close> on anything else, and \<^verbatim>\<open>data[k] = v\<close> with a string
  key is a \<^verbatim>\<open>TypeError\<close> on anything but a dict. Any exception inside the \<^verbatim>\<open>try\<close>
  returns a copy of the defaults. \<open>defaults\<close> is the value of the global
  \<^verbatim>\<open>DEFAULT_SETTINGS\<close> at the call: the copies are shallow, so the nested
  \<^verbatim>\<open>schedule\<close> and \<^verbatim>\<open>last_used\<close> dicts of the global are shared with the records
  handed out, and \<open>DEFAULT_SETTINGS tz\<close> is only its value when the module is imported.
\<close>

datatype 'a stored = Missing | Unreadable | Content 'a

fun py_contains :: "json \<Rightarrow> string \<Rightarrow> py_error + bool" where
  "py_contains (JObj d) k = Inr (map_of d k \<noteq> None)"
| "py_contains (JArr xs) k = Inr (JStr k \<in> set xs)"
| "py_contains (JStr s) k = Inr (sublist k s)"
| "py_contains JNull k = Inl TypeError"
| "py_contains (JBool b) k = Inl TypeError"
| "py_contains (JInt i) k = Inl TypeError"

fun py_setitem :: "json \<Rightarrow> string \<Rightarrow> json \<Rightarrow> py_error + json" where
  "py_setitem (JObj d) k v = Inr (JObj (AList.update k v d))"
| "py_setitem (JArr xs) k v = Inl TypeError"
| "py_setitem (JStr s) k v = Inl TypeError"
| "py_setitem JNull k v = Inl TypeError"
| "py_setitem (JBool b) k v = Inl TypeError"
| "py_setitem (JInt i) k v = Inl TypeError"

fun backfill :: "dict \<Rightarrow> json \<Rightarrow> py_error + json" where
  "backfill [] data = Inr data"
| "backfill ((k, v) # defaults) data =
     (case py_contains data k of
        Inl err \<Rightarrow> Inl err
      | Inr True \<Rightarrow> backfill defaults data
      | Inr False \<Rightarrow>
          (case py_setitem data k v of
             Inl err \<Rightarrow> Inl err
           | Inr data' \<Rightarrow> backfill defaults data'))"

definition load_settings :: "dict \<Rightarrow> json stored \<Rightarrow> json" where
  "load_settings defaults settings_file =
     (case settings_file of
        Missing \<Rightarrow> JObj defaults
      | Unreadable \<Rightarrow> JObj defaults
      | Content data \<Rightarrow>
          (case backfill defaults data of
             Inl err \<Rightarrow> JObj defaults
           | Inr data' \<Rightarrow> data'))"

section \<open>Python string functions\<close>

text \<open>
  Whitespace as \<^verbatim>\<open>str.strip()\<close>, \<^verbatim>\<open>int()\<close> and the pattern \<^verbatim>\<open>\s\<close> see it on ASCII text:
  tab, line feed, vertical tab, form feed, carriage return, the four separators
  0x1C--0x1F and the space.
\<close>

definition is_space :: "char \<Rightarrow> bool" where
  "is_space c \<longleftrightarrow>
     c \<in> set [CHR 0x09, CHR 0x0A, CHR 0x0B, CHR 0x0C, CHR 0x0D,
               CHR 0x1C, CHR 0x1D, CHR 0x1E, CHR 0x1F, CHR '' '']"

definition py_strip :: "string \<Rightarrow> string" where
  "py_strip s = rev (dropWhile is_space (rev (dropWhile is_space s)))"

definition to_lower :: "char \<Rightarrow> char" where
  "to_lower c =
     (case map_of (zip ''ABCDEFGHIJKLMNOPQRSTUVWXYZ'' ''abcdefghijklmnopqrstuvwxyz'') c of
        None \<Rightarrow> c | Some l \<Rightarrow> l)"

definition to_upper :: "char \<Rightarrow> char" where
  "to_upper c =
     (case map_of (zip ''abcdefghijklmnopqrstuvwxyz'' ''ABCDEFGHIJKLMNOPQRSTUVWXYZ'') c of
        None \<Rightarrow> c | Some u \<Rightarrow> u)"

definition py_lower :: "string \<Rightarrow> string" where
  "py_lower s = map to_lower s"

definition py_upper :: "string \<Rightarrow> string" where
  "py_upper s = map to_upper s"

text \<open>\<^verbatim>\<open>s.replace(".", ":")\<close> and \<^verbatim>\<open>s.split(":")\<close>.\<close>

definition replace_dot :: "string \<Rightarrow> string" where
  "replace_dot s = map (\<lambda>c. if c = CHR ''.'' then CHR '':'' else c) s"

fun split_on :: "char \<Rightarrow> string \<Rightarrow> string list" where
  "split_on sep [] = [[]]"
| "split_on sep (c # cs) =
     (if c = sep then [] # split_on sep cs
      else (case split_on sep cs of [] \<Rightarrow> [[c]] | t # ts \<Rightarrow> (c # t) # ts))"

text \<open>
  \<^verbatim>\<open>int(s)\<close> in base 10: surrounding whitespace is dropped, one sign is allowed, then
  decimal digits, where single underscores may stand between digits. \<open>None\<close> is the
  \<^verbatim>\<open>ValueError\<close>.
\<close>

definition digit_val :: "char \<Rightarrow> nat option" where
  "digit_val c = map_of (zip ''0123456789'' [0, 1, 2, 3, 4, 5, 6, 7, 8, 9]) c"

fun digits_rest :: "nat \<Rightarrow> string \<Rightarrow> nat option" where
  "digits_rest acc [] = Some acc"
| "digits_rest acc [c] =
     (case digit_val c of None \<Rightarrow> None | Some d \<Rightarrow> Some (10 * acc + d))"
| "digits_rest acc (c # c' # cs) =
     (if c = CHR ''_'' then
        (case digit_val c' of None \<Rightarrow> None | Some d \<Rightarrow> digits_rest (10 * acc + d) cs)
      else
        (case digit_val c of None \<Rightarrow> None | Some d \<Rightarrow> digits_rest (10 * acc + d) (c' # cs)))"

definition digits :: "string \<Rightarrow> nat option" where
  "digits s =
     (case s of [] \<Rightarrow> None
      | c # cs \<Rightarrow> (case digit_val c of None \<Rightarrow> None | Some d \<Rightarrow> digits_rest d cs))"

definition py_int :: "string \<Rightarrow> int option" where
  "py_int s =
     (case py_strip s of
        [] \<Rightarrow> None
      | c # cs \<Rightarrow>
          if c = CHR ''-'' then map_option (\<lambda>n. - int n) (digits cs)
          else if c = CHR ''+'' then map_option int (digits cs)
          else map_option int (digits (c # cs)))"

text \<open>\<^verbatim>\<open>str(n)\<close> for an integer, and \<^verbatim>\<open>",".join(parts)\<close>.\<close>

definition digit_char :: "nat \<Rightarrow> char" where
  "digit_char d = ''0123456789'' ! d"

function str_nat :: "nat \<Rightarrow> string" where
  "str_nat n = (if n < 10 then [digit_char n] else str_nat (n div 10) @ [digit_char (n mod 10)])"
  by pat_completeness auto
termination
  by (relation "measure id") auto

definition py_str :: "int \<Rightarrow> string" where
  "py_str i = (if i < 0 then CHR ''-'' # str_nat (nat (- i)) else str_nat (nat i))"

fun join_commas :: "string list \<Rightarrow> string" where
  "join_commas [] = []"
| "join_commas [p] = p"
| "join_commas (p # q # ps) = p @ CHR '','' # join_commas (q # ps)"

text \<open>
  \<^verbatim>\<open>re.split(r"[\s,]+", s)\<close>: the pieces between the maximal runs of whitespace and
  commas; a run at the start or at the end of \<open>s\<close> leaves an empty piece there.
\<close>

definition is_sep :: "char \<Rightarrow> bool" where
  "is_sep c \<longleftrightarrow> is_space c \<or> c = CHR '',''"

function re_split :: "string \<Rightarrow> string list" where
  "re_split [] = [[]]"
| "re_split (c # cs) =
     (if is_sep c then [] # re_split (dropWhile is_sep cs)
      else (case re_split cs of [] \<Rightarrow> [[c]] | t # ts \<Rightarrow> (c # t) # ts))"
  by pat_completeness auto
termination
  by (relation "measure length") (auto simp: length_dropWhile_le less_Suc_eq_le)

section \<open>The schedule resolver\<close>

text \<open>
  \<^verbatim>\<open>setup_scheduler\<close>, lines 371--376: the time of day. \<open>time\<close> is
  \<^verbatim>\<open>schedule.get("time")\<close>, \<open>None\<close> when the key is missing or null;
  \<^verbatim>\<open>or "09:30"\<close> also replaces the empty string. Unpacking \<^verbatim>\<open>h, m = map(int, ...)\<close>
  raises unless the slice holds exactly two pieces and both convert; every exception
  gives \<open>(9, 30)\<close>.
\<close>

definition parse_time :: "string option \<Rightarrow> int \<times> int" where
  "parse_time time =
     (let time_str = (case time of None \<Rightarrow> ''09:30'' | Some s \<Rightarrow> if s = [] then ''09:30'' else s)
      in case take 2 (split_on CHR '':'' (replace_dot time_str)) of
           [a, b] \<Rightarrow>
             (case py_int a of
                None \<Rightarrow> (9, 30)
              | Some h \<Rightarrow> (case py_int b of None \<Rightarrow> (9, 30) | Some m \<Rightarrow> (h, m)))
         | _ \<Rightarrow> (9, 30))"

text \<open>
  Lines 378--390: the days of the week. \<open>freq\<close> is the variable of that name, the
  configured frequency after \<^verbatim>\<open>(schedule.get("frequency") or "daily").strip().lower()\<close>
  (\<open>normalise_frequency\<close>). \<open>frequency_days\<close> is the list \<^verbatim>\<open>days\<close> after line 389,
  \<open>None\<close> on the daily branch, which never builds it.
\<close>

definition normalise_frequency :: "string option \<Rightarrow> string" where
  "normalise_frequency frequency =
     py_lower (py_strip (case frequency of None \<Rightarrow> ''daily''
                         | Some s \<Rightarrow> if s = [] then ''daily'' else s))"

definition day_map :: "string \<Rightarrow> nat option" where
  "day_map = map_of [(''mon'', 0), (''tue'', 1), (''wed'', 2), (''thu'', 3), (''fri'', 4),
                     (''sat'', 5), (''sun'', 6)]"

fun collect_days :: "string list \<Rightarrow> nat list \<Rightarrow> nat list" where
  "collect_days [] days = days"
| "collect_days (p # parts) days =
     collect_days parts
       (case day_map p of
          None \<Rightarrow> days
        | Some d \<Rightarrow> if d \<notin> set days then days @ [d] else days)"

definition frequency_days :: "string \<Rightarrow> nat list option" where
  "frequency_days freq =
     (if freq = ''daily'' then None
      else (let days = collect_days (re_split (py_lower freq)) []
            in Some (if days = [] then [0, 2, 4] else days)))"

text \<open>
  \<^verbatim>\<open>CronTrigger\<close> belongs to APScheduler. Its constructor checks each field against
  the field's range and raises \<^verbatim>\<open>ValueError\<close> outside it: hours 0--23, minutes 0--59,
  days of the week 0--6.
\<close>

datatype trigger =
  CronTrigger (day_of_week: "string option") (hour: int) (minute: int) (trigger_tz: string)

definition cron_trigger :: "string option \<Rightarrow> int \<Rightarrow> int \<Rightarrow> string \<Rightarrow> py_error + trigger" where
  "cron_trigger dow h m tz =
     (if 0 \<le> h \<and> h \<le> 23 \<and> 0 \<le> m \<and> m \<le> 59 then Inr (CronTrigger dow h m tz)
      else Inl ValueError)"

definition compile_trigger :: "string \<Rightarrow> int \<Rightarrow> int \<Rightarrow> string \<Rightarrow> py_error + trigger" where
  "compile_trigger freq h m tz =
     (case frequency_days freq of
        None \<Rightarrow> cron_trigger None h m tz
      | Some days \<Rightarrow>
          cron_trigger (Some (join_commas (map (\<lambda>d. py_str (int d)) (sort days)))) h m tz)"

section \<open>Settings as the bot reads them\<close>

text \<open>
  The functions below read the settings dict field by field with \<^verbatim>\<open>settings.get\<close>.
  \<open>settings\<close> is that dict with the types the bot's own commands store: an option is
  \<open>None\<close> when the key is missing or null, a boolean field is the truth value of the entry,
  and an optional dict (\<^verbatim>\<open>schedule\<close>, \<^verbatim>\<open>last_used\<close>, \<^verbatim>\<open>content_plan\<close>) is \<open>None\<close>
  when it is missing, null or empty, which \<^verbatim>\<open>or {}\<close> and the truth tests of the code
  treat alike. The \<^verbatim>\<open>timezone\<close> entry keeps a missing key apart from a null one:
  \<^verbatim>\<open>settings.get("timezone", TIMEZONE)\<close> puts the default in place of a missing key
  only.
\<close>

datatype tz_setting = TzMissing | TzNull | TzName string

record last_used =
  lu_rubric :: "string option"
  lu_destination :: "string option"
  lu_date :: "string option"

record schedule =
  enabled :: bool
  time :: "string option"
  frequency :: "string option"

record settings =
  target_chat_id :: "int option"
  timezone :: tz_setting
  rubric :: "string option"
  destination :: "string option"
  season :: "string option"
  tone :: "string option"
  audience :: "string option"
  constraints :: "string list"
  schedule :: "schedule option"
  crosspost_vk :: bool
  content_plan :: "(string \<times> string) list option"
  last_used :: "last_used option"

text \<open>The module constants read from the environment (lines 24--29).\<close>

record config =
  TELEGRAM_BOT_TOKEN :: "string option"
  TELEGRAM_CHAT_ID :: "string option"
  OPENAI_API_KEY :: "string option"
  TIMEZONE :: string
  VK_API_KEY :: "string option"
  VK_GROUP_ID :: "string option"

text \<open>Truth values: \<^verbatim>\<open>None\<close>, \<^verbatim>\<open>0\<close> and \<^verbatim>\<open>""\<close> are false.\<close>

definition truthy_int :: "int option \<Rightarrow> bool" where
  "truthy_int v \<longleftrightarrow> v \<noteq> None \<and> v \<noteq> Some 0"

definition truthy_str :: "string option \<Rightarrow> bool" where
  "truthy_str v \<longleftrightarrow> v \<noteq> None \<and> v \<noteq> Some []"

definition str_or :: "string option \<Rightarrow> string \<Rightarrow> string" where
  "str_or v dflt = (case v of None \<Rightarrow> dflt | Some s \<Rightarrow> if s = [] then dflt else s)"

text \<open>
  The target chat (lines 355--360 and 295--300): the stored one, else
  \<^verbatim>\<open>int(TELEGRAM_CHAT_ID)\<close> when that is set and converts.
\<close>

definition resolve_target :: "config \<Rightarrow> settings \<Rightarrow> int option" where
  "resolve_target cfg s =
     (if \<not> truthy_int (target_chat_id s) \<and> truthy_str (TELEGRAM_CHAT_ID cfg) then
        (case py_int (str_or (TELEGRAM_CHAT_ID cfg) []) of
           None \<Rightarrow> target_chat_id s
         | Some n \<Rightarrow> Some n)
      else target_chat_id s)"

text \<open>
  Line 370: the zone name handed to \<^verbatim>\<open>pytz.timezone\<close>, \<open>None\<close> when the entry is
  null.
\<close>

definition resolve_timezone :: "config \<Rightarrow> settings \<Rightarrow> string option" where
  "resolve_timezone cfg s =
     (case timezone s of
        TzMissing \<Rightarrow> Some (TIMEZONE cfg)
      | TzNull \<Rightarrow> None
      | TzName z \<Rightarrow> Some z)"

section \<open>The scheduler\<close>

text \<open>
  The global \<^verbatim>\<open>_scheduler\<close> is \<open>None\<close> or a started \<^verbatim>\<open>BackgroundScheduler\<close>,
  modelled by its job store: the (job id, trigger) pairs in the order they were added.
  As in APScheduler, \<^verbatim>\<open>add_job\<close> raises \<^verbatim>\<open>ConflictingIdError\<close> when the id is taken
  and \<^verbatim>\<open>remove_job\<close> raises \<^verbatim>\<open>JobLookupError\<close> when no job has the id.
\<close>

type_synonym scheduler = "(string \<times> trigger) list"

definition add_job :: "string \<Rightarrow> trigger \<Rightarrow> scheduler \<Rightarrow> py_error + scheduler" where
  "add_job job_id trig jobs =
     (if job_id \<in> fst ` set jobs then Inl ConflictingIdError else Inr (jobs @ [(job_id, trig)]))"

fun remove_job :: "string \<Rightarrow> scheduler \<Rightarrow> py_error + scheduler" where
  "remove_job job_id [] = Inl JobLookupError"
| "remove_job job_id (j # jobs) =
     (if fst j = job_id then Inr jobs
      else (case remove_job job_id jobs of Inl err \<Rightarrow> Inl err | Inr jobs' \<Rightarrow> Inr (j # jobs')))"

text \<open>\<^verbatim>\<open>try: _scheduler.remove_job("travel_post_job") except Exception: pass\<close>\<close>

definition try_remove_job :: "scheduler \<Rightarrow> scheduler" where
  "try_remove_job jobs =
     (case remove_job ''travel_post_job'' jobs of Inl err \<Rightarrow> jobs | Inr jobs' \<Rightarrow> jobs')"

text \<open>
  \<^verbatim>\<open>setup_scheduler\<close> (lines 342--400). \<open>available\<close> says whether APScheduler and pytz
  import, \<open>known_tz\<close> which zone names \<^verbatim>\<open>pytz.timezone\<close> accepts (it raises
  \<^verbatim>\<open>UnknownTimeZoneError\<close> on the others and on \<^verbatim>\<open>None\<close>); both belong to the
  installation. \<open>s\<close> is what
  \<^verbatim>\<open>load_settings()\<close> returned. The result is the exception that left the function, if
  any, and the global after the call.
\<close>

definition setup_scheduler ::
  "bool \<Rightarrow> (string \<Rightarrow> bool) \<Rightarrow> config \<Rightarrow> settings \<Rightarrow> scheduler option
     \<Rightarrow> py_error option \<times> scheduler option" where
  "setup_scheduler available known_tz cfg s sched =
     (if \<not> available then (None, sched)
      else
        let sch = (case schedule s of None \<Rightarrow> \<lparr>enabled = False, time = None, frequency = None\<rparr>
                   | Some c \<Rightarrow> c);
            target = resolve_target cfg s
        in if \<not> enabled sch \<or> \<not> truthy_int target then
             (None, map_option try_remove_job sched)
           else
             (case resolve_timezone cfg s of
                None \<Rightarrow> (Some UnknownTimeZoneError, sched)
              | Some tz \<Rightarrow>
                  if \<not> known_tz tz then (Some UnknownTimeZoneError, sched)
                  else
                    let (h, m) = parse_time (time sch);
                        freq = normalise_frequency (frequency sch)
                    in case compile_trigger freq h m tz of
                         Inl err \<Rightarrow> (Some err, sched)
                       | Inr trig \<Rightarrow>
                           let started = (case sched of None \<Rightarrow> [] | Some jobs \<Rightarrow> jobs);
                               cleared = try_remove_job started
                           in case add_job ''travel_post_job'' trig cleared of
                                Inl err \<Rightarrow> (Some err, Some cleared)
                              | Inr jobs \<Rightarrow> (None, Some jobs)))"

text \<open>
  A sequence of calls, each with the settings file as it is at that moment, starting from
  a fresh process (\<^verbatim>\<open>_scheduler = None\<close>); and the triggers that fire the publish job.
\<close>

fun setup_calls ::
  "bool \<Rightarrow> (string \<Rightarrow> bool) \<Rightarrow> config \<Rightarrow> settings list \<Rightarrow> scheduler option
     \<Rightarrow> scheduler option" where
  "setup_calls available known_tz cfg [] sched = sched"
| "setup_calls available known_tz cfg (s # rest) sched =
     setup_calls available known_tz cfg rest (snd (setup_scheduler available known_tz cfg s sched))"

definition active_triggers :: "scheduler option \<Rightarrow> trigger list" where
  "active_triggers sched =
     (case sched of None \<Rightarrow> []
      | Some jobs \<Rightarrow> map snd (filter (\<lambda>j. fst j = ''travel_post_job'') jobs))"

section \<open>The rubric rotator\<close>

definition WEEKDAY_RUBRIC :: "string list" where
  "WEEKDAY_RUBRIC =
     [''TIPS'', ''ROUTE_1DAY'', ''FOOD'', ''FACT_DAY'', ''WEEKEND'', ''ROUTE_3DAYS'', ''CHECKLIST'']"

text \<open>
  \<^verbatim>\<open>get_rubric_for_weekday\<close> (lines 270--288). \<open>now_date\<close> is
  \<^verbatim>\<open>datetime.now().strftime("%Y-%m-%d")\<close>. \<open>used_today\<close> is the test both branches
  make: \<^verbatim>\<open>last_used\<close> is true and the first ten characters of its date are today's
  date. \<open>resolved_rubric\<close> is the code \<open>r\<close> each branch holds before that test: the
  content plan's entry for the day, trimmed and in upper case, when the plan has a
  non-empty one, else the entry of the weekly table.
\<close>

definition used_today :: "string \<Rightarrow> last_used option \<Rightarrow> bool" where
  "used_today now_date lu =
     (case lu of None \<Rightarrow> False
      | Some l \<Rightarrow> take 10 (str_or (lu_date l) []) = now_date)"

definition plan_entry :: "int \<Rightarrow> (string \<times> string) list option \<Rightarrow> string option" where
  "plan_entry weekday plan =
     (case plan of None \<Rightarrow> None
      | Some p \<Rightarrow>
          (case map_of p (py_str (weekday mod 7)) of
             None \<Rightarrow> None
           | Some v \<Rightarrow> if v = [] then None else Some (py_upper (py_strip v))))"

definition resolved_rubric :: "int \<Rightarrow> (string \<times> string) list option \<Rightarrow> string" where
  "resolved_rubric weekday plan =
     (case plan_entry weekday plan of
        Some r \<Rightarrow> r
      | None \<Rightarrow> WEEKDAY_RUBRIC ! nat (weekday mod 7))"

definition get_rubric_for_weekday ::
  "string \<Rightarrow> int \<Rightarrow> last_used option \<Rightarrow> (string \<times> string) list option \<Rightarrow> string" where
  "get_rubric_for_weekday now_date weekday lu plan =
     (case plan_entry weekday plan of
        Some r \<Rightarrow> if r = ''CHECKLIST'' \<and> used_today now_date lu then ''SEASON'' else r
      | None \<Rightarrow>
          (let r = WEEKDAY_RUBRIC ! nat (weekday mod 7)
           in if r = ''CHECKLIST'' \<and> used_today now_date lu then ''SEASON'' else r))"

text \<open>
  \<^verbatim>\<open>scheduled_job_standalone\<close> up to the call of the pipeline (lines 291--320):
  \<open>None\<close> when the job returns for want of a target chat, else the settings it saves and
  hands to \<^verbatim>\<open>run_generate_and_publish\<close>. \<open>random_destination\<close> is what
  \<^verbatim>\<open>random.choice(DEFAULT_DESTINATIONS)\<close> returns, \<open>weekday\<close> is
  \<^verbatim>\<open>datetime.now().weekday()\<close>.
\<close>

definition anti_repeat :: "string \<Rightarrow> string option \<Rightarrow> string" where
  "anti_repeat r prev_rubric =
     (if Some r = prev_rubric then (if r \<noteq> ''TIPS'' then ''TIPS'' else ''FOOD'') else r)"

definition scheduled_job_settings ::
  "config \<Rightarrow> string \<Rightarrow> int \<Rightarrow> string \<Rightarrow> settings \<Rightarrow> settings option" where
  "scheduled_job_settings cfg now_date weekday random_destination s =
     (if \<not> truthy_int (resolve_target cfg s) then None
      else
        let s1 = (if py_strip (str_or (destination s) []) = []
                  then s\<lparr>destination := Some random_destination\<rparr> else s);
            r = get_rubric_for_weekday now_date weekday (last_used s1) (content_plan s1);
            prev_rubric = (case last_used s1 of None \<Rightarrow> None | Some l \<Rightarrow> lu_rubric l)
        in Some (s1\<lparr>rubric := Some (anti_repeat r prev_rubric)\<rparr>))"

section \<open>The publish pipeline\<close>

text \<open>
  \<^verbatim>\<open>run_generate_and_publish\<close> (lines 153--267) calls the text generator, the image
  generator, the Telegram HTTP API, the \<^verbatim>\<open>TelegramPublisher\<close> and the
  \<^verbatim>\<open>VKPublisher\<close>. None of them is part of \<^verbatim>\<open>telegram_bot.py\<close>, so what each call does is a
  parameter: it raises (with the text of the exception) or returns. Building a
  generator or a publisher object is taken together with the call made on it.
\<close>

datatype 'a outcome = Raises string | Returns 'a

text \<open>
  What \<^verbatim>\<open>generate_travel_post\<close> is called with, and the two entries the pipeline reads
  from what it returns (\<^verbatim>\<open>out.get("post_text") or ""\<close>,
  \<^verbatim>\<open>out.get("image_prompt") or ""\<close>).
\<close>

record post_request =
  req_rubric :: string
  req_destination :: string
  req_season :: "string option"
  req_tone :: string
  req_audience :: "string option"
  req_constraints :: "string list"

record generated =
  post_text :: string
  image_prompt :: string

text \<open>
  An answer of \<^verbatim>\<open>requests.post\<close> to \<^verbatim>\<open>sendPhoto\<close>: \<^verbatim>\<open>resp.ok\<close>, the \<^verbatim>\<open>ok\<close> flag
  of the JSON body and the \<^verbatim>\<open>message_id\<close> of its \<^verbatim>\<open>result\<close>, \<open>None\<close> when the body
  has no \<^verbatim>\<open>result\<close> or the result has no id. A body that is not JSON, or whose
  \<^verbatim>\<open>result\<close> is not an object, makes the read raise inside the \<^verbatim>\<open>try\<close> and counts
  as \<open>Raises\<close>.
\<close>

datatype tg_reply = TgReply (http_ok: bool) (api_ok: bool) (reply_message_id: "int option")

text \<open>
  \<open>publish_post\<close> returns what the pipeline extracts from the publisher's answer,
  \<^verbatim>\<open>(pub_resp or {}).get("result", {}).get("message_id")\<close>: \<open>None\<close> when the publisher
  returned \<^verbatim>\<open>None\<close> or an answer without a message id; an answer on which that
  expression raises counts as \<open>Raises\<close>. \<open>vk_publish_post\<close> likewise returns
  \<^verbatim>\<open>(vk_resp.get("response") or {}).get("post_id")\<close>.
\<close>

record env =
  generate_travel_post :: "post_request \<Rightarrow> generated outcome"
  generate_images :: "string \<Rightarrow> string list outcome"
  send_photo_url :: "string \<Rightarrow> string \<Rightarrow> tg_reply outcome"
  http_get :: "string \<Rightarrow> string outcome"
  send_photo_file :: "string \<Rightarrow> string \<Rightarrow> tg_reply outcome"
  publish_post :: "string \<Rightarrow> int option outcome"
  vk_publish_post :: "string \<Rightarrow> string option \<Rightarrow> int option outcome"
  utcnow :: string
  today :: string

text \<open>The calls a run makes to the outside, in order.\<close>

datatype event =
    SendPhotoUrl string string
  | Download string
  | SendPhotoFile string string
  | PublishText string
  | VkPublish string "string option"

text \<open>
  The two early returns carry fixed messages (lines 162 and 172); any other error is the
  text of the exception the \<^verbatim>\<open>try\<close> block caught.
\<close>

datatype failure = NoTargetChat | NoApiKey | Exception string

record result =
  ok :: bool
  tg_message_id :: "int option"
  vk_post_id :: "string option"
  error :: "failure option"

text \<open>Lines 164--166: the destination, rubric and tone of the run.\<close>

definition run_destination :: "settings \<Rightarrow> string option \<Rightarrow> string" where
  "run_destination s destination_override =
     py_strip (if truthy_str destination_override then str_or destination_override []
               else str_or (destination s) Stambul)"

definition run_rubric :: "settings \<Rightarrow> string" where
  "run_rubric s = str_or (rubric s) ''TIPS''"

definition run_tone :: "settings \<Rightarrow> string" where
  "run_tone s = str_or (tone s) ''FRIENDLY''"

text \<open>Lines 177--185: what the text generator is asked for.\<close>

definition run_request :: "settings \<Rightarrow> string option \<Rightarrow> post_request" where
  "run_request s destination_override =
     \<lparr>req_rubric = run_rubric s,
      req_destination = run_destination s destination_override,
      req_season = season s,
      req_tone = run_tone s,
      req_audience = audience s,
      req_constraints = constraints s\<rparr>"

text \<open>Lines 189--196: the image, \<open>None\<close> when the generator raises or returns no URL.\<close>

definition generate_image :: "env \<Rightarrow> string \<Rightarrow> string option" where
  "generate_image e prompt =
     (case generate_images e prompt of
        Raises msg \<Rightarrow> None
      | Returns urls \<Rightarrow> (case urls of [] \<Rightarrow> None | url # rest \<Rightarrow> Some url))"

text \<open>
  Lines 198--234: delivery to the primary channel. A \<^verbatim>\<open>sendPhoto\<close> attempt succeeds
  when the call returns, \<^verbatim>\<open>resp.ok\<close> holds and the body says \<^verbatim>\<open>ok\<close>; anything else
  ends in the \<^verbatim>\<open>except\<close> branch. The result is the list of calls made and either the
  message id stored in \<^verbatim>\<open>result["tg_message_id"]\<close> or the exception of the text-only
  call, which nothing here catches.
\<close>

definition photo_sent :: "tg_reply outcome \<Rightarrow> int option option" where
  "photo_sent answer =
     (case answer of
        Raises msg \<Rightarrow> None
      | Returns r \<Rightarrow> if http_ok r \<and> api_ok r then Some (reply_message_id r) else None)"

definition deliver :: "env \<Rightarrow> string \<Rightarrow> string option \<Rightarrow> event list \<times> int option outcome" where
  "deliver e text image_url =
     (if truthy_str image_url then
        (let url = str_or image_url []; caption = take 1024 text in
         case photo_sent (send_photo_url e url caption) of
           Some mid \<Rightarrow> ([SendPhotoUrl url caption], Returns mid)
         | None \<Rightarrow>
             (case http_get e url of
                Raises msg \<Rightarrow>
                  ([SendPhotoUrl url caption, Download url, PublishText text],
                   publish_post e text)
              | Returns img_data \<Rightarrow>
                  (case photo_sent (send_photo_file e img_data caption) of
                     Some mid \<Rightarrow>
                       ([SendPhotoUrl url caption, Download url,
                         SendPhotoFile img_data caption], Returns mid)
                   | None \<Rightarrow>
                       ([SendPhotoUrl url caption, Download url,
                         SendPhotoFile img_data caption, PublishText text],
                        publish_post e text))))
      else ([PublishText text], publish_post e text))"

text \<open>
  Lines 245--258: the mirror to VK. The result is the new \<^verbatim>\<open>result["vk_post_id"]\<close>,
  the call made and the log after the step; a post id is written into the last entry of
  the log.
\<close>

definition crosspost ::
  "config \<Rightarrow> env \<Rightarrow> settings \<Rightarrow> string \<Rightarrow> string option \<Rightarrow> dict list
     \<Rightarrow> string option \<times> event list \<times> dict list" where
  "crosspost cfg e s text image_url log =
     (if crosspost_vk s \<and> truthy_str (VK_API_KEY cfg) \<and> truthy_str (VK_GROUP_ID cfg) then
        (case vk_publish_post e text image_url of
           Raises msg \<Rightarrow> (None, [VkPublish text image_url], log)
         | Returns None \<Rightarrow> (None, [VkPublish text image_url], log)
         | Returns (Some post_id) \<Rightarrow>
             (Some (py_str post_id), [VkPublish text image_url],
              if log = [] then log
              else butlast log @
                   [AList.update ''vk_post_id'' (JStr (py_str post_id)) (last log)]))
      else (None, [], log))"

text \<open>
  The whole run. It returns the result dict, the calls made, the post log and the settings
  after the run; the settings change (and are saved) only on success.
\<close>

definition run_generate_and_publish ::
  "config \<Rightarrow> env \<Rightarrow> settings \<Rightarrow> string option \<Rightarrow> dict list
     \<Rightarrow> result \<times> event list \<times> dict list \<times> settings" where
  "run_generate_and_publish cfg e s destination_override log =
     (case target_chat_id s of
        None \<Rightarrow>
          (\<lparr>ok = False, tg_message_id = None, vk_post_id = None, error = Some NoTargetChat\<rparr>,
           [], log, s)
      | Some target \<Rightarrow>
          if target = 0 then
            (\<lparr>ok = False, tg_message_id = None, vk_post_id = None, error = Some NoTargetChat\<rparr>,
             [], log, s)
          else if \<not> truthy_str (OPENAI_API_KEY cfg) then
            (\<lparr>ok = False, tg_message_id = None, vk_post_id = None, error = Some NoApiKey\<rparr>,
             [], log, s)
          else
            (let dest = run_destination s destination_override;
                 rub = run_rubric s;
                 ton = run_tone s
             in case generate_travel_post e (run_request s destination_override) of
                  Raises msg \<Rightarrow>
                    (\<lparr>ok = False, tg_message_id = None, vk_post_id = None,
                      error = Some (Exception msg)\<rparr>, [], log, s)
                | Returns out \<Rightarrow>
                    (let text = take 4000 (post_text out);
                         image_url = generate_image e (image_prompt out);
                         (sent, delivered) = deliver e text image_url
                     in case delivered of
                          Raises msg \<Rightarrow>
                            (\<lparr>ok = False, tg_message_id = None, vk_post_id = None,
                              error = Some (Exception msg)\<rparr>, sent, log, s)
                        | Returns mid \<Rightarrow>
                            (let log1 = append_log (utcnow e) target
                                          (case mid of None \<Rightarrow> 0 | Some m \<Rightarrow> m)
                                          rub dest ton JNull log;
                                 (vk_id, mirrored, log2) = crosspost cfg e s text image_url log1
                             in (\<lparr>ok = True, tg_message_id = mid, vk_post_id = vk_id,
                                  error = None\<rparr>,
                                 sent @ mirrored, log2,
                                 s\<lparr>last_used := Some \<lparr>lu_rubric = Some rub,
                                                      lu_destination = Some dest,
                                                      lu_date = Some (today e)\<rparr>\<rparr>)))))"

text \<open>
  What holds of the global after any number of calls: without APScheduler there is no
  scheduler, and a scheduler holds no job or the publish job alone.
\<close>

definition sched_inv :: "bool \<Rightarrow> scheduler option \<Rightarrow> bool" where
  "sched_inv available sched \<longleftrightarrow>
     (case sched of None \<Rightarrow> True
      | Some jobs \<Rightarrow> available \<and> (jobs = [] \<or> (\<exists>t. jobs = [(''travel_post_job'', t)])))"

section \<open>Worked examples\<close>

text \<open>
  A log with a duplicated (chat, message) pair: the newer duplicate (index 2) is the one
  counted, the older one (index 0) is left alone; a reply to a message that is not in the
  log changes nothing.
\<close>

definition example_log :: "dict list" where
  "example_log =
     [new_entry ''2024-05-01T09:30:00Z'' 7 42 ''TIPS'' ''Riga'' ''FRIENDLY'' JNull,
      new_entry ''2024-05-02T09:30:00Z'' 7 43 ''FOOD'' ''Riga'' ''FRIENDLY'' JNull,
      new_entry ''2024-05-03T09:30:00Z'' 7 42 ''WEEKEND'' ''Oslo'' ''EXPERT'' (JStr ''15'')]"


text \<open>A settings file written by an older version: two known keys and one unknown.\<close>

definition old_settings :: dict where
  "old_settings =
     [(''rubric'', JStr ''FOOD''),
      (''target_chat_id'', JInt (-1001234)),
      (''content_plan'', JObj [(''0'', JStr ''food'')])]"

text \<open>
  Rotator inputs: a Sunday with no content plan after a post made the same day, and a
  content plan whose Wednesday entry is the checklist, padded and in lower case, with a
  last-used date that carries a time of day.
\<close>

definition used_on_sunday :: last_used where
  "used_on_sunday =
     \<lparr>lu_rubric = Some ''CHECKLIST'', lu_destination = Some ''Riga'',
      lu_date = Some ''2024-05-05''\<rparr>"

definition used_on_wednesday :: last_used where
  "used_on_wednesday =
     \<lparr>lu_rubric = Some ''TIPS'', lu_destination = Some ''Riga'',
      lu_date = Some ''2024-05-08T07:15:00''\<rparr>"

definition checklist_plan :: "(string \<times> string) list" where
  "checklist_plan = [(''2'', '' checklist ''), (''4'', ''tips'')]"

text \<open>
  Settings of a scheduled run on a Friday whose plan entry repeats the rubric of the
  previous run.
\<close>

definition friday_settings :: settings where
  "friday_settings =
     \<lparr>target_chat_id = Some (-1001234), timezone = TzName ''Europe/Riga'',
      rubric = Some ''FOOD'', destination = Some ''Riga'', season = None,
      tone = Some ''FRIENDLY'', audience = None, constraints = [],
      schedule = Some \<lparr>enabled = True, time = Some ''9:5'', frequency = Some ''mon, FRI''\<rparr>,
      crosspost_vk = False, content_plan = Some checklist_plan,
      last_used = Some used_on_wednesday\<rparr>"

definition bot_config :: config where
  "bot_config =
     \<lparr>TELEGRAM_BOT_TOKEN = Some ''token'', TELEGRAM_CHAT_ID = None,
      OPENAI_API_KEY = Some ''key'', TIMEZONE = ''Europe/Berlin'',
      VK_API_KEY = Some ''vk'', VK_GROUP_ID = Some ''77''\<rparr>"

text \<open>
  The settings after \<^verbatim>\<open>/set_schedule 25:99\<close>, which the command accepts (its pattern asks
  for one or two digits, a separator and two digits), settings with another time and
  frequency, and settings with the schedule switched off.
\<close>

definition bad_time_settings :: settings where
  "bad_time_settings =
     friday_settings\<lparr>schedule :=
       Some \<lparr>enabled = True, time = Some ''25:99'', frequency = Some ''daily''\<rparr>\<rparr>"

definition evening_settings :: settings where
  "evening_settings =
     friday_settings\<lparr>schedule :=
       Some \<lparr>enabled = True, time = Some ''18.00'', frequency = Some '' Daily''\<rparr>\<rparr>"

definition disabled_settings :: settings where
  "disabled_settings =
     friday_settings\<lparr>schedule :=
       Some \<lparr>enabled = False, time = Some ''09:30'', frequency = Some ''daily''\<rparr>\<rparr>"

text \<open>
  A run in which Telegram refuses the image URL, the upload of the downloaded bytes times
  out, the text-only post goes through as message 501 and VK is down; and a run with no
  image in which the publisher returns an answer without a message id.
\<close>

definition example_env :: env where
  "example_env =
     \<lparr>generate_travel_post =
        (\<lambda>req. Returns \<lparr>post_text = ''Hello from Riga'', image_prompt = ''old town''\<rparr>),
      generate_images = (\<lambda>prompt. Returns [''https://img.example/1.png'']),
      send_photo_url = (\<lambda>url caption. Returns (TgReply True False None)),
      http_get = (\<lambda>url. Returns ''JPEG''),
      send_photo_file = (\<lambda>img_data caption. Raises ''timed out''),
      publish_post = (\<lambda>text. Returns (Some 501)),
      vk_publish_post = (\<lambda>text image_url. Raises ''vk is down''),
      utcnow = ''2024-05-10T06:05:00Z'',
      today = ''2024-05-10''\<rparr>"

definition silent_env :: env where
  "silent_env =
     example_env\<lparr>generate_images := (\<lambda>prompt. Raises ''no image''),
                  publish_post := (\<lambda>text. Returns None)\<rparr>"

definition vk_settings :: settings where
  "vk_settings = friday_settings\<lparr>crosspost_vk := True\<rparr>"

section \<open>Properties of the engagement tracker\<close>










section \<open>Properties of the settings store\<close>

lemma update_absent_key:
  "map_of d k = None \<Longrightarrow> AList.update k v d = d @ [(k, v)]"
  by (induction d) (auto split: if_splits)

lemma backfill_dict:
  "\<exists>added. backfill defaults (JObj data) = Inr (JObj (data @ added)) \<and>
           map_of (data @ added) = map_of defaults ++ map_of data \<and>
           set added \<subseteq> set defaults"
proof (induction defaults arbitrary: data)
  case Nil
  show ?case by (intro exI [of _ "[]"]) simp
next
  case (Cons kv defaults)
  obtain k v where kv: "kv = (k, v)" by (cases kv)
  show ?case
  proof (cases "map_of data k")
    case None
    from Cons.IH [of "data @ [(k, v)]"] obtain added where
      run: "backfill defaults (JObj (data @ [(k, v)])) = Inr (JObj ((data @ [(k, v)]) @ added))"
      and look: "map_of ((data @ [(k, v)]) @ added) = map_of defaults ++ map_of (data @ [(k, v)])"
      and sub: "set added \<subseteq> set defaults"
      by blast
    have look': "map_of (data @ (k, v) # added) = map_of (kv # defaults) ++ map_of data"
    proof (rule ext)
      fix a
      show "map_of (data @ (k, v) # added) a = (map_of (kv # defaults) ++ map_of data) a"
        using fun_cong [OF look, of a] None
        by (auto simp: kv map_add_def split: option.splits if_splits)
    qed
    have step: "backfill (kv # defaults) (JObj data) = Inr (JObj (data @ (k, v) # added))"
      using run None by (simp add: kv update_absent_key)
    have sub': "set ((k, v) # added) \<subseteq> set (kv # defaults)"
      using sub by (auto simp: kv)
    from step look' sub' show ?thesis by blast
  next
    case (Some w)
    from Cons.IH [of data] obtain added where
      run: "backfill defaults (JObj data) = Inr (JObj (data @ added))"
      and look: "map_of (data @ added) = map_of defaults ++ map_of data"
      and sub: "set added \<subseteq> set defaults"
      by blast
    have look': "map_of (data @ added) = map_of (kv # defaults) ++ map_of data"
    proof (rule ext)
      fix a
      show "map_of (data @ added) a = (map_of (kv # defaults) ++ map_of data) a"
        using fun_cong [OF look, of a] Some
        by (auto simp: kv map_add_def split: option.splits if_splits)
    qed
    have step: "backfill (kv # defaults) (JObj data) = Inr (JObj (data @ added))"
      using run Some by (simp add: kv)
    have sub': "set added \<subseteq> set (kv # defaults)"
      using sub by auto
    from step look' sub' show ?thesis by blast
  qed
qed

lemma backfill_complete_dict:
  "\<forall>k\<in>fst ` set defaults. map_of data k \<noteq> None \<Longrightarrow>
     backfill defaults (JObj data) = Inr (JObj data)"
  by (induction defaults) auto

text \<open>
  C9. For every persisted settings record (a JSON object) and whatever the default
  settings hold at the call, loading yields a record in which every key of the default
  settings is present, a key missing from the file having
  its default value, and every key/value pair of the file is kept as it was, in the
  file's order, whether the key is known or not; a record that misses no default key
  loads unchanged.
\<close>

theorem load_settings_backfills_defaults:
  "\<exists>added.
     load_settings defaults (Content (JObj data)) = JObj (data @ added) \<and>
     (\<forall>k\<in>fst ` set defaults. map_of (data @ added) k \<noteq> None) \<and>
     (\<forall>k v. map_of data k = Some v \<longrightarrow> map_of (data @ added) k = Some v) \<and>
     (\<forall>k. map_of data k = None \<longrightarrow>
          map_of (data @ added) k = map_of defaults k) \<and>
     ((\<forall>k\<in>fst ` set defaults. map_of data k \<noteq> None) \<longrightarrow> added = [])"
proof -
  from backfill_dict [of defaults data] obtain added where
    run: "backfill defaults (JObj data) = Inr (JObj (data @ added))"
    and look: "map_of (data @ added) = map_of defaults ++ map_of data"
    by blast
  have res: "load_settings defaults (Content (JObj data)) = JObj (data @ added)"
    using run by (simp add: load_settings_def)
  have all_keys: "\<forall>k\<in>fst ` set defaults. map_of (data @ added) k \<noteq> None"
  proof
    fix k assume "k \<in> fst ` set defaults"
    then have "map_of defaults k \<noteq> None"
      by (simp add: map_of_eq_None_iff)
    then show "map_of (data @ added) k \<noteq> None"
      unfolding look by (simp add: map_add_def split: option.splits)
  qed
  have kept: "\<forall>k v. map_of data k = Some v \<longrightarrow> map_of (data @ added) k = Some v"
    unfolding look by (simp add: map_add_def)
  have filled: "\<forall>k. map_of data k = None \<longrightarrow>
      map_of (data @ added) k = map_of defaults k"
    unfolding look by (simp add: map_add_def)
  have same: "(\<forall>k\<in>fst ` set defaults. map_of data k \<noteq> None) \<longrightarrow> added = []"
  proof
    assume "\<forall>k\<in>fst ` set defaults. map_of data k \<noteq> None"
    then have "backfill defaults (JObj data) = Inr (JObj data)"
      by (rule backfill_complete_dict)
    with run show "added = []" by simp
  qed
  from res all_keys kept filled same show ?thesis by blast
qed

theorem load_settings_backfills_defaults_witness:
  "load_settings (DEFAULT_SETTINGS ''Europe/Berlin'') (Content (JObj old_settings)) =
     JObj [(''rubric'', JStr ''FOOD''),
           (''target_chat_id'', JInt (-1001234)),
           (''content_plan'', JObj [(''0'', JStr ''food'')]),
           (''timezone'', JStr ''Europe/Berlin''),
           (''destination'', JStr Stambul),
           (''season'', JNull),
           (''tone'', JStr ''FRIENDLY''),
           (''audience'', JNull),
           (''constraints'', JArr []),
           (''schedule'', JObj [(''enabled'', JBool False), (''time'', JStr ''09:30''),
                                (''frequency'', JStr ''daily'')]),
           (''crosspost_vk'', JBool True),
           (''last_used'', JObj [(''rubric'', JNull), (''destination'', JNull),
                                 (''date'', JNull)])] \<and>
   load_settings (DEFAULT_SETTINGS ''Europe/Berlin'') (Content (JObj (DEFAULT_SETTINGS ''UTC''))) =
     JObj (DEFAULT_SETTINGS ''UTC'')"
proof -
  from load_settings_backfills_defaults [of "DEFAULT_SETTINGS ''Europe/Berlin''" "DEFAULT_SETTINGS ''UTC''"]
  obtain added where
    res: "load_settings (DEFAULT_SETTINGS ''Europe/Berlin'') (Content (JObj (DEFAULT_SETTINGS ''UTC''))) =
            JObj (DEFAULT_SETTINGS ''UTC'' @ added)"
    and same: "(\<forall>k\<in>fst ` set (DEFAULT_SETTINGS ''Europe/Berlin'').
                  map_of (DEFAULT_SETTINGS ''UTC'') k \<noteq> None) \<longrightarrow> added = []"
    by blast
  have "\<forall>k\<in>fst ` set (DEFAULT_SETTINGS ''Europe/Berlin'').
          map_of (DEFAULT_SETTINGS ''UTC'') k \<noteq> None"
    by (simp add: DEFAULT_SETTINGS_def)
  with same have "added = []" by blast
  with res have "load_settings (DEFAULT_SETTINGS ''Europe/Berlin'') (Content (JObj (DEFAULT_SETTINGS ''UTC''))) =
      JObj (DEFAULT_SETTINGS ''UTC'')"
    by simp
  moreover have "load_settings (DEFAULT_SETTINGS ''Europe/Berlin'') (Content (JObj old_settings)) =
     JObj [(''rubric'', JStr ''FOOD''),
           (''target_chat_id'', JInt (-1001234)),
           (''content_plan'', JObj [(''0'', JStr ''food'')]),
           (''timezone'', JStr ''Europe/Berlin''),
           (''destination'', JStr Stambul),
           (''season'', JNull),
           (''tone'', JStr ''FRIENDLY''),
           (''audience'', JNull),
           (''constraints'', JArr []),
           (''schedule'', JObj [(''enabled'', JBool False), (''time'', JStr ''09:30''),
                                (''frequency'', JStr ''daily'')]),
           (''crosspost_vk'', JBool True),
           (''last_used'', JObj [(''rubric'', JNull), (''destination'', JNull),
                                 (''date'', JNull)])]"
    by (simp add: load_settings_def DEFAULT_SETTINGS_def old_settings_def)
  ultimately show ?thesis by simp
qed

section \<open>Properties of the rubric rotator\<close>

lemma get_rubric_for_weekday_resolved:
  "get_rubric_for_weekday now_date weekday lu plan =
     (if resolved_rubric weekday plan = ''CHECKLIST'' \<and> used_today now_date lu
      then ''SEASON'' else resolved_rubric weekday plan)"
  by (simp add: get_rubric_for_weekday_def resolved_rubric_def Let_def split: option.splits)

text \<open>
  C4. For every weekday, every last-used record and every content plan: when the rubric
  resolved from the content plan or from the weekly table is \<^verbatim>\<open>CHECKLIST\<close> and the
  date of the last-used record (its first ten characters, the date without a time of day)
  is today's date, the rotator returns \<^verbatim>\<open>SEASON\<close>, which is not the checklist code.
\<close>

theorem checklist_used_today_returns_season:
  assumes "resolved_rubric weekday plan = ''CHECKLIST''"
    and "lu = Some l"
    and "lu_date l = Some d"
    and "take 10 d = now_date"
  shows "get_rubric_for_weekday now_date weekday lu plan = ''SEASON'' \<and>
         get_rubric_for_weekday now_date weekday lu plan \<noteq> ''CHECKLIST''"
proof -
  have "used_today now_date lu"
    using assms(2-4) by (auto simp: used_today_def str_or_def)
  with assms(1) show ?thesis
    by (simp add: get_rubric_for_weekday_resolved)
qed

theorem checklist_used_today_returns_season_witness:
  "get_rubric_for_weekday ''2024-05-05'' 6 (Some used_on_sunday) None = ''SEASON'' \<and>
   get_rubric_for_weekday ''2024-05-08'' 2 (Some used_on_wednesday) (Some checklist_plan)
     = ''SEASON'' \<and>
   get_rubric_for_weekday ''2024-05-09'' 2 (Some used_on_wednesday) (Some checklist_plan)
     = ''CHECKLIST''"
proof -
  have sunday: "resolved_rubric 6 None = ''CHECKLIST''"
    by (simp add: resolved_rubric_def plan_entry_def WEEKDAY_RUBRIC_def)
  have wednesday: "resolved_rubric 2 (Some checklist_plan) = ''CHECKLIST''"
    by (simp add: resolved_rubric_def plan_entry_def checklist_plan_def py_str_def
        digit_char_def py_upper_def to_upper_def py_strip_def is_space_def)
  have "get_rubric_for_weekday ''2024-05-05'' 6 (Some used_on_sunday) None = ''SEASON''"
    using checklist_used_today_returns_season
      [OF sunday, of "Some used_on_sunday" used_on_sunday "''2024-05-05''" "''2024-05-05''"]
    by (simp add: used_on_sunday_def)
  moreover have "get_rubric_for_weekday ''2024-05-08'' 2 (Some used_on_wednesday)
      (Some checklist_plan) = ''SEASON''"
    using checklist_used_today_returns_season
      [OF wednesday, of "Some used_on_wednesday" used_on_wednesday "''2024-05-08T07:15:00''"
        "''2024-05-08''"]
    by (simp add: used_on_wednesday_def)
  moreover have "get_rubric_for_weekday ''2024-05-09'' 2 (Some used_on_wednesday)
      (Some checklist_plan) = ''CHECKLIST''"
    using wednesday
    by (simp add: get_rubric_for_weekday_resolved used_today_def used_on_wednesday_def
        str_or_def)
  ultimately show ?thesis by simp
qed

lemma run_records_last_used:
  assumes "run_generate_and_publish cfg e s destination_override log = (r, sent, log', s')"
    and "ok r"
  shows "last_used s' = Some \<lparr>lu_rubric = Some (run_rubric s),
           lu_destination = Some (run_destination s destination_override),
           lu_date = Some (today e)\<rparr>"
  using assms
  by (auto simp: run_generate_and_publish_def Let_def
      split: option.splits if_splits outcome.splits prod.splits)

text \<open>
  C3. Every scheduled run that has a target chat goes on to the pipeline with settings in
  which only the destination and the rubric may have changed. When the rubric the
  rotator resolves equals the rubric that \<^verbatim>\<open>last_used\<close> records from the previous run,
  the job stores \<^verbatim>\<open>TIPS\<close> instead, or \<^verbatim>\<open>FOOD\<close> when the repeated rubric is
  \<^verbatim>\<open>TIPS\<close> itself: a fixed choice with nothing random in it; otherwise it stores the
  rotator's rubric. The rubric the job stores never equals the previous one, the pipeline
  uses the substitute as it is, and a successful run records it as the new last-used
  rubric.
\<close>

theorem scheduled_job_avoids_previous_rubric:
  assumes target: "truthy_int (resolve_target cfg s)"
    and prev: "last_used s = Some l" "lu_rubric l = Some p"
  shows "\<exists>s'. scheduled_job_settings cfg now_date weekday random_destination s = Some s' \<and>
    s'\<lparr>rubric := rubric s\<rparr> =
      (if py_strip (str_or (destination s) []) = []
       then s\<lparr>destination := Some random_destination\<rparr> else s) \<and>
    last_used s' = last_used s \<and> content_plan s' = content_plan s \<and>
    target_chat_id s' = target_chat_id s \<and>
    rubric s' \<noteq> Some p \<and>
    (get_rubric_for_weekday now_date weekday (last_used s) (content_plan s) \<noteq> p \<longrightarrow>
       rubric s' =
         Some (get_rubric_for_weekday now_date weekday (last_used s) (content_plan s))) \<and>
    (get_rubric_for_weekday now_date weekday (last_used s) (content_plan s) = p \<longrightarrow>
       rubric s' = Some (if p = ''TIPS'' then ''FOOD'' else ''TIPS'') \<and>
       run_rubric s' \<noteq> p \<and>
       (\<forall>cfg' e destination_override log r sent log' s''.
          run_generate_and_publish cfg' e s' destination_override log = (r, sent, log', s'') \<and>
          ok r \<longrightarrow>
          (\<exists>l'. last_used s'' = Some l' \<and> lu_rubric l' = rubric s' \<and>
                lu_rubric l' \<noteq> lu_rubric l)))"
proof -
  let ?r = "get_rubric_for_weekday now_date weekday (last_used s) (content_plan s)"
  let ?s1 = "if py_strip (str_or (destination s) []) = []
             then s\<lparr>destination := Some random_destination\<rparr> else s"
  let ?s' = "?s1\<lparr>rubric := Some (anti_repeat ?r (Some p))\<rparr>"
  have job: "scheduled_job_settings cfg now_date weekday random_destination s = Some ?s'"
    using target prev by (simp add: scheduled_job_settings_def Let_def)
  have kept: "last_used ?s' = last_used s" "content_plan ?s' = content_plan s"
    "target_chat_id ?s' = target_chat_id s"
    by simp_all
  have rest: "?s'\<lparr>rubric := rubric s\<rparr> = ?s1"
    by simp
  have stored: "rubric ?s' = Some (anti_repeat ?r (Some p))"
    by simp
  have differs: "rubric ?s' \<noteq> Some p"
    by (simp add: anti_repeat_def)
  have plain: "?r \<noteq> p \<longrightarrow> rubric ?s' = Some ?r"
    by (simp add: anti_repeat_def)
  have subst: "?r = p \<longrightarrow>
       rubric ?s' = Some (if p = ''TIPS'' then ''FOOD'' else ''TIPS'') \<and>
       run_rubric ?s' \<noteq> p \<and>
       (\<forall>cfg' e destination_override log r sent log' s''.
          run_generate_and_publish cfg' e ?s' destination_override log = (r, sent, log', s'') \<and>
          ok r \<longrightarrow>
          (\<exists>l'. last_used s'' = Some l' \<and> lu_rubric l' = rubric ?s' \<and>
                lu_rubric l' \<noteq> lu_rubric l))"
  proof (rule impI)
    assume same: "?r = p"
    then have sub: "rubric ?s' = Some (if p = ''TIPS'' then ''FOOD'' else ''TIPS'')"
      by (simp add: anti_repeat_def)
    then have eff: "Some (run_rubric ?s') = rubric ?s'"
      unfolding run_rubric_def str_or_def by (simp split: if_splits)
    have used: "run_rubric ?s' \<noteq> p"
      using sub unfolding run_rubric_def str_or_def by (simp split: if_splits)
    have recorded: "\<forall>cfg' e destination_override log r sent log' s''.
          run_generate_and_publish cfg' e ?s' destination_override log = (r, sent, log', s'') \<and>
          ok r \<longrightarrow>
          (\<exists>l'. last_used s'' = Some l' \<and> lu_rubric l' = rubric ?s' \<and>
                lu_rubric l' \<noteq> lu_rubric l)"
    proof (intro allI, rule impI)
      fix cfg' e destination_override log r sent log' s''
      assume run: "run_generate_and_publish cfg' e ?s' destination_override log =
          (r, sent, log', s'') \<and> ok r"
      then have "last_used s'' = Some \<lparr>lu_rubric = Some (run_rubric ?s'),
           lu_destination = Some (run_destination ?s' destination_override),
           lu_date = Some (today e)\<rparr>"
        by (intro run_records_last_used
            [of cfg' e ?s' destination_override log r sent log' s'']) simp_all
      with eff differs prev(2)
      show "\<exists>l'. last_used s'' = Some l' \<and> lu_rubric l' = rubric ?s' \<and>
                lu_rubric l' \<noteq> lu_rubric l"
        by simp
    qed
    from sub used recorded
    show "rubric ?s' = Some (if p = ''TIPS'' then ''FOOD'' else ''TIPS'') \<and>
       run_rubric ?s' \<noteq> p \<and>
       (\<forall>cfg' e destination_override log r sent log' s''.
          run_generate_and_publish cfg' e ?s' destination_override log = (r, sent, log', s'') \<and>
          ok r \<longrightarrow>
          (\<exists>l'. last_used s'' = Some l' \<and> lu_rubric l' = rubric ?s' \<and>
                lu_rubric l' \<noteq> lu_rubric l))"
      by (intro conjI)
  qed
  show ?thesis
    by (rule exI [of _ ?s'])
       (rule conjI [OF job conjI [OF rest conjI [OF kept(1) conjI [OF kept(2)
          conjI [OF kept(3) conjI [OF differs conjI [OF plain subst]]]]]]])
qed

lemmas rotator_eval_simps =
  get_rubric_for_weekday_def plan_entry_def checklist_plan_def py_str_def digit_char_def
  py_upper_def to_upper_def py_strip_def is_space_def used_today_def str_or_def
  used_on_wednesday_def friday_settings_def

theorem scheduled_job_avoids_previous_rubric_witness:
  "scheduled_job_settings bot_config ''2024-05-10'' 4 ''Oslo'' friday_settings =
     Some (friday_settings\<lparr>rubric := Some ''FOOD''\<rparr>) \<and>
   get_rubric_for_weekday ''2024-05-10'' 4 (last_used friday_settings)
     (content_plan friday_settings) = ''TIPS'' \<and>
   lu_rubric used_on_wednesday = Some ''TIPS'' \<and>
   run_rubric (friday_settings\<lparr>rubric := Some ''FOOD''\<rparr>) \<noteq> ''TIPS'' \<and>
   scheduled_job_settings bot_config ''2024-05-07'' 1 ''Oslo'' friday_settings =
     Some (friday_settings\<lparr>rubric := Some ''ROUTE_1DAY''\<rparr>)"
proof -
  have same: "get_rubric_for_weekday ''2024-05-10'' 4 (last_used friday_settings)
     (content_plan friday_settings) = ''TIPS''"
    by (simp add: rotator_eval_simps)
  have other: "get_rubric_for_weekday ''2024-05-07'' 1 (last_used friday_settings)
     (content_plan friday_settings) = ''ROUTE_1DAY''"
    by (simp add: rotator_eval_simps WEEKDAY_RUBRIC_def)
  have prev: "last_used friday_settings = Some used_on_wednesday"
    "lu_rubric used_on_wednesday = Some ''TIPS''"
    by (simp_all add: friday_settings_def used_on_wednesday_def)
  have target: "truthy_int (resolve_target bot_config friday_settings)"
    by (simp add: resolve_target_def truthy_int_def friday_settings_def)
  have dest: "py_strip (str_or (destination friday_settings) []) \<noteq> []"
    by (simp add: friday_settings_def str_or_def py_strip_def is_space_def)
  have job: "scheduled_job_settings bot_config ''2024-05-10'' 4 ''Oslo'' friday_settings =
     Some (friday_settings\<lparr>rubric := Some ''FOOD''\<rparr>)"
    using same prev target dest
    by (simp add: scheduled_job_settings_def anti_repeat_def Let_def)
  have tuesday: "scheduled_job_settings bot_config ''2024-05-07'' 1 ''Oslo'' friday_settings =
     Some (friday_settings\<lparr>rubric := Some ''ROUTE_1DAY''\<rparr>)"
    using other prev target dest
    by (simp add: scheduled_job_settings_def anti_repeat_def Let_def)
  from scheduled_job_avoids_previous_rubric
    [OF target prev, of "''2024-05-10''" 4 "''Oslo''"]
  obtain s' where
    "scheduled_job_settings bot_config ''2024-05-10'' 4 ''Oslo'' friday_settings = Some s'"
    and "get_rubric_for_weekday ''2024-05-10'' 4 (last_used friday_settings)
           (content_plan friday_settings) = ''TIPS'' \<longrightarrow>
         rubric s' = Some (if ''TIPS'' = ''TIPS'' then ''FOOD'' else ''TIPS'') \<and>
         run_rubric s' \<noteq> ''TIPS'' \<and>
         (\<forall>cfg' e destination_override log r sent log' s''.
            run_generate_and_publish cfg' e s' destination_override log = (r, sent, log', s'') \<and>
            ok r \<longrightarrow>
            (\<exists>l'. last_used s'' = Some l' \<and> lu_rubric l' = rubric s' \<and>
                  lu_rubric l' \<noteq> lu_rubric used_on_wednesday))"
    by (elim exE conjE) (rule that; assumption)
  with job same have "run_rubric (friday_settings\<lparr>rubric := Some ''FOOD''\<rparr>) \<noteq> ''TIPS''"
    by simp
  with job same prev(2) tuesday show ?thesis by simp
qed

section \<open>Properties of the schedule resolver\<close>

lemma upper_not_sep: "c \<in> set ''ABCDEFGHIJKLMNOPQRSTUVWXYZ'' \<Longrightarrow> \<not> is_sep c"
  by (auto simp: is_sep_def is_space_def)

lemma lower_not_sep: "c \<in> set ''abcdefghijklmnopqrstuvwxyz'' \<Longrightarrow> \<not> is_sep c"
  by (auto simp: is_sep_def is_space_def)

lemma is_sep_to_lower: "is_sep (to_lower c) = is_sep c"
proof (cases "map_of (zip ''ABCDEFGHIJKLMNOPQRSTUVWXYZ'' ''abcdefghijklmnopqrstuvwxyz'') c")
  case None
  then show ?thesis by (simp add: to_lower_def)
next
  case (Some l)
  then have "(c, l) \<in> set (zip ''ABCDEFGHIJKLMNOPQRSTUVWXYZ'' ''abcdefghijklmnopqrstuvwxyz'')"
    by (rule map_of_SomeD)
  then have c: "c \<in> set ''ABCDEFGHIJKLMNOPQRSTUVWXYZ''"
    and l: "l \<in> set ''abcdefghijklmnopqrstuvwxyz''"
    by (rule set_zip_leftD, rule set_zip_rightD)
  have "\<not> is_sep c" using c by (rule upper_not_sep)
  moreover have "\<not> is_sep l" using l by (rule lower_not_sep)
  ultimately show ?thesis using Some by (simp add: to_lower_def)
qed


lemma collect_days_set:
  "set (collect_days parts days) = set days \<union> {d. \<exists>p\<in>set parts. day_map p = Some d}"
  by (induction parts arbitrary: days) (auto split: option.splits)

lemma collect_days_distinct:
  "distinct days \<Longrightarrow> distinct (collect_days parts days)"
  by (induction parts arbitrary: days) (auto split: option.splits)

lemma dropWhile_sep_lower:
  "dropWhile is_sep (map to_lower cs) = map to_lower (dropWhile is_sep cs)"
  by (induction cs) (simp_all add: is_sep_to_lower)

lemma re_split_nonempty: "re_split s \<noteq> []"
  by (induction s rule: re_split.induct) (auto split: list.splits)

lemma re_split_lower: "re_split (py_lower s) = map py_lower (re_split s)"
proof (induction s rule: re_split.induct)
  case 1
  show ?case by (simp add: py_lower_def)
next
  case (2 c cs)
  show ?case
  proof (cases "is_sep c")
    case True
    with 2 show ?thesis
      by (simp add: py_lower_def is_sep_to_lower dropWhile_sep_lower)
  next
    case False
    with 2 re_split_nonempty [of cs] show ?thesis
      by (cases "re_split cs") (simp_all add: py_lower_def is_sep_to_lower)
  qed
qed

lemma re_split_no_sep_aux:
  "p \<in> set (re_split s) \<Longrightarrow> x \<in> set p \<Longrightarrow> \<not> is_sep x"
proof (induction s arbitrary: p x rule: re_split.induct)
  case 1
  then show ?case by simp
next
  case (2 c cs)
  show ?case
  proof (cases "is_sep c")
    case True
    with "2.prems" have "p \<in> set (re_split (dropWhile is_sep cs))"
      by auto
    with True "2.IH"(1) "2.prems"(2) show ?thesis by blast
  next
    case False
    obtain t ts where split: "re_split cs = t # ts"
      using re_split_nonempty [of cs] by (cases "re_split cs") auto
    with False "2.prems"(1) have "p = c # t \<or> p \<in> set ts"
      by simp
    then show ?thesis
    proof
      assume p: "p = c # t"
      have t: "t \<in> set (re_split cs)" using split by simp
      from p "2.prems"(2) have "x = c \<or> x \<in> set t" by simp
      then show ?thesis
      proof
        assume "x = c"
        with False show ?thesis by simp
      next
        assume "x \<in> set t"
        with False t "2.IH"(2) show ?thesis by blast
      qed
    next
      assume "p \<in> set ts"
      then have "p \<in> set (re_split cs)" using split by simp
      with False "2.IH"(2) "2.prems"(2) show ?thesis by blast
    qed
  qed
qed

lemma re_split_no_sep: "\<forall>p\<in>set (re_split s). \<forall>c\<in>set p. \<not> is_sep c"
  using re_split_no_sep_aux by blast

lemma filter_dropWhile_sep:
  "filter (\<lambda>c. \<not> is_sep c) (dropWhile is_sep cs) = filter (\<lambda>c. \<not> is_sep c) cs"
  by (induction cs) simp_all

lemma re_split_concat: "concat (re_split s) = filter (\<lambda>c. \<not> is_sep c) s"
proof (induction s rule: re_split.induct)
  case 1
  show ?case by simp
next
  case (2 c cs)
  show ?case
  proof (cases "is_sep c")
    case True
    with 2 show ?thesis by (simp add: filter_dropWhile_sep)
  next
    case False
    obtain t ts where split: "re_split cs = t # ts"
      using re_split_nonempty [of cs] by (cases "re_split cs") auto
    with False 2 show ?thesis by simp
  qed
qed

text \<open>
  C6. For every frequency string \<open>freq\<close> other than the literal \<^verbatim>\<open>daily\<close> (the string
  the branch at line 378 tests), the string is split at the runs of whitespace and commas,
  so no token holds a separator and the tokens together are the string without its
  separators; each token is matched in lower case against \<^verbatim>\<open>mon\<close> .. \<^verbatim>\<open>sun\<close>, tokens
  that match nothing (the empty ones among them) are dropped, and the days of the trigger
  are the days matched, or Monday, Wednesday and Friday when nothing matched.
\<close>

theorem frequency_days_from_tokens:
  assumes "freq \<noteq> ''daily''"
  shows "\<exists>days. frequency_days freq = Some days \<and> distinct days \<and>
     (let valid = {d. \<exists>p\<in>set (re_split freq). day_map (py_lower p) = Some d}
      in set days = (if valid = {} then {0, 2, 4} else valid)) \<and>
     (\<forall>p\<in>set (re_split freq). \<forall>c\<in>set p. \<not> is_space c \<and> c \<noteq> CHR '','') \<and>
     concat (re_split freq) = filter (\<lambda>c. \<not> (is_space c \<or> c = CHR '','')) freq \<and>
     (\<forall>h m tz. 0 \<le> h \<and> h \<le> 23 \<and> 0 \<le> m \<and> m \<le> 59 \<longrightarrow>
        compile_trigger freq h m tz =
          Inr (CronTrigger (Some (join_commas (map (\<lambda>d. py_str (int d)) (sort days)))) h m tz))"
proof -
  let ?found = "collect_days (re_split (py_lower freq)) []"
  let ?days = "if ?found = [] then [0, 2, 4] else ?found"
  let ?valid = "{d. \<exists>p\<in>set (re_split freq). day_map (py_lower p) = Some d}"
  have fd: "frequency_days freq = Some ?days"
    using assms by (simp add: frequency_days_def Let_def)
  have found: "set ?found = ?valid"
    by (auto simp: collect_days_set re_split_lower)
  have dist: "distinct ?days"
    by (simp add: collect_days_distinct)
  have days: "set ?days = (if ?valid = {} then {0, 2, 4} else ?valid)"
  proof (cases "?found = []")
    case True
    then have "?valid = {}" using found by simp
    with True show ?thesis by auto
  next
    case False
    then have "?valid \<noteq> {}" using found by (metis set_empty)
    with False found show ?thesis by simp
  qed
  have tokens: "\<forall>p\<in>set (re_split freq). \<forall>c\<in>set p. \<not> is_space c \<and> c \<noteq> CHR '',''"
    using re_split_no_sep [of freq] by (simp add: is_sep_def)
  have cat: "concat (re_split freq) = filter (\<lambda>c. \<not> (is_space c \<or> c = CHR '','')) freq"
    using re_split_concat [of freq] by (simp add: is_sep_def)
  have trig: "\<forall>h m tz. 0 \<le> h \<and> h \<le> 23 \<and> 0 \<le> m \<and> m \<le> 59 \<longrightarrow>
        compile_trigger freq h m tz =
          Inr (CronTrigger (Some (join_commas (map (\<lambda>d. py_str (int d)) (sort ?days)))) h m tz)"
    using fd by (simp add: compile_trigger_def cron_trigger_def)
  show ?thesis
    unfolding Let_def
    by (rule exI [of _ ?days]) (intro conjI fd dist days tokens cat trig)
qed

lemmas schedule_eval_simps =
  frequency_days_def compile_trigger_def cron_trigger_def py_lower_def to_lower_def
  is_sep_def is_space_def day_map_def py_str_def digit_char_def

theorem frequency_days_from_tokens_witness:
  "frequency_days ''mon, FRI'' = Some [0, 4] \<and>
   frequency_days ''xx,yy'' = Some [0, 2, 4] \<and>
   compile_trigger ''mon, FRI'' 9 5 ''UTC'' = Inr (CronTrigger (Some ''0,4'') 9 5 ''UTC'') \<and>
   compile_trigger ''sun Mon,,SUN'' 9 5 ''UTC'' = Inr (CronTrigger (Some ''0,6'') 9 5 ''UTC'')"
proof -
  have neq: "''mon, FRI'' \<noteq> ''daily''" by simp
  from frequency_days_from_tokens [OF neq] obtain days where
    fd: "frequency_days ''mon, FRI'' = Some days"
    and trig: "\<forall>h m tz. 0 \<le> h \<and> h \<le> 23 \<and> 0 \<le> m \<and> m \<le> 59 \<longrightarrow>
        compile_trigger ''mon, FRI'' h m tz =
          Inr (CronTrigger (Some (join_commas (map (\<lambda>d. py_str (int d)) (sort days)))) h m tz)"
    by (elim exE conjE) (rule that; assumption)
  have days: "frequency_days ''mon, FRI'' = Some [0, 4]"
    by (simp add: schedule_eval_simps)
  with fd have "days = [0, 4]" by simp
  with trig have "compile_trigger ''mon, FRI'' 9 5 ''UTC'' =
      Inr (CronTrigger (Some ''0,4'') 9 5 ''UTC'')"
    by (simp add: py_str_def digit_char_def)
  moreover have "frequency_days ''xx,yy'' = Some [0, 2, 4]"
    by (simp add: schedule_eval_simps)
  moreover have "compile_trigger ''sun Mon,,SUN'' 9 5 ''UTC'' =
      Inr (CronTrigger (Some ''0,6'') 9 5 ''UTC'')"
    by (simp add: schedule_eval_simps)
  ultimately show ?thesis using days by simp
qed

lemma compile_trigger_out_of_range:
  "\<not> (0 \<le> h \<and> h \<le> 23 \<and> 0 \<le> m \<and> m \<le> 59) \<Longrightarrow> compile_trigger freq h m tz = Inl ValueError"
  by (cases "frequency_days freq") (auto simp: compile_trigger_def cron_trigger_def)

lemma parse_time_25_99: "parse_time (Some ''25:99'') = (25, 99)"
  by (simp add: parse_time_def replace_dot_def py_int_def py_strip_def is_space_def
      digits_def digit_val_def)

text \<open>
  What the parse of the time does with well-formed input, and with input that does not
  split into two integers: a one- or two-digit hour, \<^verbatim>\<open>:\<close> or \<^verbatim>\<open>.\<close> and a two-digit
  minute give that hour and minute; anything that lacks a second piece or has a piece
  \<^verbatim>\<open>int\<close> rejects gives 09:30.
\<close>

lemma digit_is_plain:
  assumes "digit_val c = Some x"
  shows "\<not> is_space c" "c \<noteq> CHR '':''" "c \<noteq> CHR ''.''" "c \<noteq> CHR ''-''" "c \<noteq> CHR ''+''"
    "c \<noteq> CHR ''_''"
proof -
  from assms have "(c, x) \<in> set (zip ''0123456789'' [0, 1, 2, 3, 4, 5, 6, 7, 8, 9])"
    unfolding digit_val_def by (rule map_of_SomeD)
  then have "c \<in> set ''0123456789''" by (rule set_zip_leftD)
  then show "\<not> is_space c" "c \<noteq> CHR '':''" "c \<noteq> CHR ''.''" "c \<noteq> CHR ''-''"
    "c \<noteq> CHR ''+''" "c \<noteq> CHR ''_''"
    by (auto simp: is_space_def)
qed

lemma py_int_one_digit:
  "digit_val a = Some x \<Longrightarrow> py_int [a] = Some (int x)"
  by (simp add: py_int_def py_strip_def digits_def digit_is_plain)

lemma py_int_two_digits:
  "digit_val a = Some x \<Longrightarrow> digit_val b = Some y \<Longrightarrow> py_int [a, b] = Some (int (10 * x + y))"
  by (simp add: py_int_def py_strip_def digits_def digit_is_plain)

lemma parse_time_well_formed:
  assumes "digit_val a = Some x" "digit_val b = Some w" "digit_val c = Some y"
    "digit_val d = Some z" "sep = CHR '':'' \<or> sep = CHR ''.''"
  shows "parse_time (Some [a, sep, c, d]) = (int x, int (10 * y + z))"
    and "parse_time (Some [a, b, sep, c, d]) = (int (10 * x + w), int (10 * y + z))"
  using assms
  by (auto simp: parse_time_def replace_dot_def digit_is_plain py_int_one_digit
      py_int_two_digits)

lemma parse_time_examples:
  "parse_time (Some ''9:5'') = (9, 5)"
  "parse_time (Some ''09.05'') = (9, 5)"
  "parse_time (Some '''') = (9, 30)"
  "parse_time None = (9, 30)"
  "parse_time (Some ''soon'') = (9, 30)"
  "parse_time (Some ''12'') = (9, 30)"
  "parse_time (Some ''12:'') = (9, 30)"
  by (simp_all add: parse_time_def replace_dot_def py_int_def py_strip_def is_space_def
      digits_def digit_val_def)

text \<open>
  C5. The time \<^verbatim>\<open>25:99\<close> does not fall back to 09:30. It has two pieces that both
  convert, so the parse yields hour 25 and minute 99, \<^verbatim>\<open>CronTrigger\<close> rejects them,
  and since that call stands outside the \<^verbatim>\<open>try\<close> of lines 373--376 the
  \<^verbatim>\<open>ValueError\<close> leaves \<^verbatim>\<open>setup_scheduler\<close> with the scheduler as it was: no
  trigger is installed for the new time.
\<close>

theorem setup_scheduler_time_out_of_range_raises:
  assumes "available"
    and "schedule s = Some c"
    and "enabled c"
    and "time c = Some ''25:99''"
    and "truthy_int (resolve_target cfg s)"
    and "resolve_timezone cfg s = Some tz"
    and "known_tz tz"
  shows "parse_time (time c) = (25, 99) \<and> parse_time (time c) \<noteq> (9, 30) \<and>
         setup_scheduler available known_tz cfg s sched = (Some ValueError, sched)"
proof -
  have t: "parse_time (time c) = (25, 99)"
    using assms(4) parse_time_25_99 by simp
  have "compile_trigger (normalise_frequency (frequency c)) 25 99 tz = Inl ValueError"
    by (rule compile_trigger_out_of_range) simp
  with assms t have "setup_scheduler available known_tz cfg s sched = (Some ValueError, sched)"
    by (simp add: setup_scheduler_def Let_def)
  with t show ?thesis by simp
qed

theorem setup_scheduler_time_out_of_range_raises_witness:
  "parse_time (Some ''25:99'') = (25, 99) \<and>
   setup_scheduler True (\<lambda>z. True) bot_config bad_time_settings None = (Some ValueError, None) \<and>
   setup_scheduler True (\<lambda>z. True) bot_config bad_time_settings
       (Some [(''travel_post_job'', CronTrigger None 9 30 ''Europe/Riga'')]) =
     (Some ValueError, Some [(''travel_post_job'', CronTrigger None 9 30 ''Europe/Riga'')])"
proof -
  let ?c = "\<lparr>enabled = True, time = Some ''25:99'', frequency = Some ''daily''\<rparr>"
  have a: "schedule bad_time_settings = Some ?c" "enabled ?c" "time ?c = Some ''25:99''"
    by (simp_all add: bad_time_settings_def)
  have b: "truthy_int (resolve_target bot_config bad_time_settings)"
    by (simp add: resolve_target_def truthy_int_def bad_time_settings_def friday_settings_def)
  have c: "resolve_timezone bot_config bad_time_settings = Some ''Europe/Riga''"
    by (simp add: resolve_timezone_def bad_time_settings_def friday_settings_def)
  have d: "(\<lambda>z. True) ''Europe/Riga''"
    by simp
  note raises = setup_scheduler_time_out_of_range_raises [OF TrueI a b c d]
  from raises [of None]
    raises [of "Some [(''travel_post_job'', CronTrigger None 9 30 ''Europe/Riga'')]"]
  show ?thesis by simp
qed

lemma try_remove_job_inv:
  "jobs = [] \<or> (\<exists>t. jobs = [(''travel_post_job'', t)]) \<Longrightarrow> try_remove_job jobs = []"
  by (auto simp: try_remove_job_def)

lemma sched_inv_cleared:
  assumes "sched_inv available sched"
  shows "try_remove_job (case sched of None \<Rightarrow> [] | Some jobs \<Rightarrow> jobs) = []"
proof -
  have "(case sched of None \<Rightarrow> [] | Some jobs \<Rightarrow> jobs) = [] \<or>
      (\<exists>t. (case sched of None \<Rightarrow> [] | Some jobs \<Rightarrow> jobs) = [(''travel_post_job'', t)])"
    using assms by (auto simp: sched_inv_def split: option.splits)
  then show ?thesis by (rule try_remove_job_inv)
qed

lemma setup_scheduler_inv:
  assumes "sched_inv available sched"
  shows "sched_inv available (snd (setup_scheduler available known_tz cfg s sched))"
proof (cases sched)
  case None
  then show ?thesis
    by (auto simp: setup_scheduler_def sched_inv_def Let_def try_remove_job_def add_job_def
        split: sum.splits prod.splits option.splits)
next
  case (Some jobs)
  with assms have av: available and shape: "jobs = [] \<or> (\<exists>t. jobs = [(''travel_post_job'', t)])"
    by (auto simp: sched_inv_def)
  have gone: "try_remove_job jobs = []"
    using shape by (rule try_remove_job_inv)
  show ?thesis
    using Some av shape gone assms
    by (auto simp: setup_scheduler_def sched_inv_def Let_def add_job_def
        split: sum.splits prod.splits option.splits)
qed

lemma setup_calls_inv:
  "sched_inv available sched \<Longrightarrow> sched_inv available (setup_calls available known_tz cfg calls sched)"
  by (induction calls arbitrary: sched) (simp_all add: setup_scheduler_inv)

lemma sched_inv_triggers: "sched_inv available sched \<Longrightarrow> length (active_triggers sched) \<le> 1"
  by (auto simp: sched_inv_def active_triggers_def split: option.splits)

lemma setup_scheduler_disabled:
  assumes inv: "sched_inv available sched"
    and off: "(case schedule s of None \<Rightarrow> True | Some c \<Rightarrow> \<not> enabled c) \<or>
              \<not> truthy_int (resolve_target cfg s)"
  shows "active_triggers (snd (setup_scheduler available known_tz cfg s sched)) = []"
proof (cases sched)
  case None
  then show ?thesis
    using off
    by (auto simp: setup_scheduler_def active_triggers_def Let_def split: option.splits)
next
  case (Some jobs)
  with inv have av: available and shape: "jobs = [] \<or> (\<exists>t. jobs = [(''travel_post_job'', t)])"
    by (auto simp: sched_inv_def)
  have gone: "try_remove_job jobs = []"
    using shape by (rule try_remove_job_inv)
  show ?thesis
    using Some av gone off
    by (auto simp: setup_scheduler_def active_triggers_def Let_def split: option.splits)
qed

lemma setup_scheduler_installs:
  assumes inv: "sched_inv available sched"
    and res: "setup_scheduler available known_tz cfg s sched = (None, sched')"
    and on: "schedule s = Some c" "enabled c" "truthy_int (resolve_target cfg s)"
    and av: available
  shows "\<exists>tz trig. resolve_timezone cfg s = Some tz \<and>
          compile_trigger (normalise_frequency (frequency c)) (fst (parse_time (time c)))
            (snd (parse_time (time c))) tz = Inr trig \<and>
          sched' = Some [(''travel_post_job'', trig)]"
  using res on av sched_inv_cleared [OF inv]
  by (auto simp: setup_scheduler_def Let_def add_job_def
      split: sum.splits prod.splits if_splits option.splits)

lemma setup_scheduler_completes:
  assumes inv: "sched_inv available sched"
    and on: "schedule s = Some c" "enabled c" "truthy_int (resolve_target cfg s)"
    and av: available
    and zone: "resolve_timezone cfg s = Some tz" "known_tz tz"
    and compiled: "compile_trigger (normalise_frequency (frequency c))
        (fst (parse_time (time c))) (snd (parse_time (time c))) tz = Inr trig"
  shows "setup_scheduler available known_tz cfg s sched =
           (None, Some [(''travel_post_job'', trig)])"
  using on av zone compiled sched_inv_cleared [OF inv]
  by (auto simp: setup_scheduler_def Let_def add_job_def split: prod.splits)

lemma setup_scheduler_raises_keeps:
  assumes inv: "sched_inv available sched"
    and res: "setup_scheduler available known_tz cfg s sched = (Some err, sched')"
  shows "sched' = sched"
  using res sched_inv_cleared [OF inv]
  by (auto simp: setup_scheduler_def Let_def add_job_def
      split: sum.splits prod.splits if_splits option.splits)

text \<open>
  C7. After any sequence of \<^verbatim>\<open>setup_scheduler\<close> calls in a process, at most one trigger
  is active for the job \<^verbatim>\<open>travel_post_job\<close>. A further call made while scheduling is
  disabled or no target chat is configured leaves no trigger for the job, whatever was
  installed before. A further call with scheduling enabled, a target chat, a known time
  zone and settings from which a trigger compiles completes and leaves exactly that
  trigger, in place of whatever was installed before; a call that completes with
  scheduling enabled is such a call; and a call that raises leaves the scheduler as it
  was.
\<close>

theorem setup_scheduler_at_most_one_trigger:
  "length (active_triggers (setup_calls available known_tz cfg calls None)) \<le> 1 \<and>
   (\<forall>s. (case schedule s of None \<Rightarrow> True | Some c \<Rightarrow> \<not> enabled c) \<or>
         \<not> truthy_int (resolve_target cfg s) \<longrightarrow>
      active_triggers (snd (setup_scheduler available known_tz cfg s
        (setup_calls available known_tz cfg calls None))) = []) \<and>
   (\<forall>s c sched'. schedule s = Some c \<and> enabled c \<and> truthy_int (resolve_target cfg s) \<and>
      available \<and>
      setup_scheduler available known_tz cfg s
        (setup_calls available known_tz cfg calls None) = (None, sched') \<longrightarrow>
      (\<exists>tz trig. resolve_timezone cfg s = Some tz \<and>
          compile_trigger (normalise_frequency (frequency c)) (fst (parse_time (time c)))
            (snd (parse_time (time c))) tz = Inr trig \<and>
          sched' = Some [(''travel_post_job'', trig)] \<and> active_triggers sched' = [trig])) \<and>
   (\<forall>s c tz trig. schedule s = Some c \<and> enabled c \<and> truthy_int (resolve_target cfg s) \<and>
      available \<and> resolve_timezone cfg s = Some tz \<and> known_tz tz \<and>
      compile_trigger (normalise_frequency (frequency c)) (fst (parse_time (time c)))
        (snd (parse_time (time c))) tz = Inr trig \<longrightarrow>
      setup_scheduler available known_tz cfg s
        (setup_calls available known_tz cfg calls None) =
          (None, Some [(''travel_post_job'', trig)]) \<and>
      active_triggers (snd (setup_scheduler available known_tz cfg s
        (setup_calls available known_tz cfg calls None))) = [trig]) \<and>
   (\<forall>s err sched'.
      setup_scheduler available known_tz cfg s
        (setup_calls available known_tz cfg calls None) = (Some err, sched') \<longrightarrow>
      sched' = setup_calls available known_tz cfg calls None)"
proof -
  let ?reached = "setup_calls available known_tz cfg calls None"
  have inv: "sched_inv available ?reached"
    by (rule setup_calls_inv) (simp add: sched_inv_def)
  have one: "length (active_triggers ?reached) \<le> 1"
    using inv by (rule sched_inv_triggers)
  have off: "\<forall>s. (case schedule s of None \<Rightarrow> True | Some c \<Rightarrow> \<not> enabled c) \<or>
         \<not> truthy_int (resolve_target cfg s) \<longrightarrow>
      active_triggers (snd (setup_scheduler available known_tz cfg s ?reached)) = []"
    using setup_scheduler_disabled [OF inv] by blast
  have on: "\<forall>s c sched'. schedule s = Some c \<and> enabled c \<and> truthy_int (resolve_target cfg s) \<and>
      available \<and> setup_scheduler available known_tz cfg s ?reached = (None, sched') \<longrightarrow>
      (\<exists>tz trig. resolve_timezone cfg s = Some tz \<and>
          compile_trigger (normalise_frequency (frequency c)) (fst (parse_time (time c)))
            (snd (parse_time (time c))) tz = Inr trig \<and>
          sched' = Some [(''travel_post_job'', trig)] \<and> active_triggers sched' = [trig])"
  proof (intro allI, rule impI)
    fix s c sched'
    assume h: "schedule s = Some c \<and> enabled c \<and> truthy_int (resolve_target cfg s) \<and>
      available \<and> setup_scheduler available known_tz cfg s ?reached = (None, sched')"
    then obtain tz trig where
      "resolve_timezone cfg s = Some tz"
      and "compile_trigger (normalise_frequency (frequency c)) (fst (parse_time (time c)))
            (snd (parse_time (time c))) tz = Inr trig"
      and "sched' = Some [(''travel_post_job'', trig)]"
      using setup_scheduler_installs [OF inv, of known_tz cfg s sched' c] by blast
    then show "\<exists>tz trig. resolve_timezone cfg s = Some tz \<and>
          compile_trigger (normalise_frequency (frequency c)) (fst (parse_time (time c)))
            (snd (parse_time (time c))) tz = Inr trig \<and>
          sched' = Some [(''travel_post_job'', trig)] \<and> active_triggers sched' = [trig]"
      by (simp add: active_triggers_def)
  qed
  have replaces: "\<forall>s c tz trig. schedule s = Some c \<and> enabled c \<and>
      truthy_int (resolve_target cfg s) \<and>
      available \<and> resolve_timezone cfg s = Some tz \<and> known_tz tz \<and>
      compile_trigger (normalise_frequency (frequency c)) (fst (parse_time (time c)))
        (snd (parse_time (time c))) tz = Inr trig \<longrightarrow>
      setup_scheduler available known_tz cfg s ?reached =
          (None, Some [(''travel_post_job'', trig)]) \<and>
      active_triggers (snd (setup_scheduler available known_tz cfg s ?reached)) = [trig]"
  proof (intro allI, rule impI)
    fix s c tz trig
    assume h: "schedule s = Some c \<and> enabled c \<and> truthy_int (resolve_target cfg s) \<and>
      available \<and> resolve_timezone cfg s = Some tz \<and> known_tz tz \<and>
      compile_trigger (normalise_frequency (frequency c)) (fst (parse_time (time c)))
        (snd (parse_time (time c))) tz = Inr trig"
    then have "setup_scheduler available known_tz cfg s ?reached =
          (None, Some [(''travel_post_job'', trig)])"
      by (intro setup_scheduler_completes [OF inv, of s c cfg tz known_tz trig]) simp_all
    then show "setup_scheduler available known_tz cfg s ?reached =
          (None, Some [(''travel_post_job'', trig)]) \<and>
      active_triggers (snd (setup_scheduler available known_tz cfg s ?reached)) = [trig]"
      by (simp add: active_triggers_def)
  qed
  have keeps: "\<forall>s err sched'.
      setup_scheduler available known_tz cfg s ?reached = (Some err, sched') \<longrightarrow>
      sched' = ?reached"
    using setup_scheduler_raises_keeps [OF inv] by blast
  show ?thesis
    by (rule conjI [OF one conjI [OF off conjI [OF on conjI [OF replaces keeps]]]])
qed

lemma friday_setup:
  "setup_scheduler True (\<lambda>z. True) bot_config friday_settings sched =
     (None, Some [(''travel_post_job'', CronTrigger (Some ''0,4'') 9 5 ''Europe/Riga'')])"
  if "sched = None \<or> sched = Some [(''travel_post_job'', t)]"
  using that
  by (auto simp: setup_scheduler_def resolve_target_def resolve_timezone_def truthy_int_def
      friday_settings_def
      parse_time_def replace_dot_def py_int_def py_strip_def digits_def digit_val_def
      normalise_frequency_def schedule_eval_simps try_remove_job_def add_job_def Let_def)

lemma evening_compiles:
  "compile_trigger (normalise_frequency (Some '' Daily''))
     (fst (parse_time (Some ''18.00''))) (snd (parse_time (Some ''18.00''))) ''Europe/Riga'' =
     Inr (CronTrigger None 18 0 ''Europe/Riga'')"
  by (simp add: parse_time_def replace_dot_def py_int_def py_strip_def digits_def digit_val_def
      normalise_frequency_def schedule_eval_simps)

theorem setup_scheduler_at_most_one_trigger_witness:
  "active_triggers (setup_calls True (\<lambda>z. True) bot_config
       [friday_settings, friday_settings, bad_time_settings] None) =
     [CronTrigger (Some ''0,4'') 9 5 ''Europe/Riga''] \<and>
   active_triggers (snd (setup_scheduler True (\<lambda>z. True) bot_config disabled_settings
       (setup_calls True (\<lambda>z. True) bot_config
          [friday_settings, friday_settings, bad_time_settings] None))) = [] \<and>
   setup_scheduler True (\<lambda>z. True) bot_config evening_settings
       (setup_calls True (\<lambda>z. True) bot_config
          [friday_settings, friday_settings, bad_time_settings] None) =
     (None, Some [(''travel_post_job'', CronTrigger None 18 0 ''Europe/Riga'')]) \<and>
   active_triggers (setup_calls True (\<lambda>z. True) bot_config
       [friday_settings, friday_settings, bad_time_settings, evening_settings] None) =
     [CronTrigger None 18 0 ''Europe/Riga'']"
proof -
  let ?job = "[(''travel_post_job'', CronTrigger (Some ''0,4'') 9 5 ''Europe/Riga'')]"
  let ?calls = "[friday_settings, friday_settings, bad_time_settings]"
  let ?c = "\<lparr>enabled = True, time = Some ''18.00'', frequency = Some '' Daily''\<rparr>"
  have bad: "setup_scheduler True (\<lambda>z. True) bot_config bad_time_settings (Some ?job) =
      (Some ValueError, Some ?job)"
    by (simp add: setup_scheduler_def resolve_target_def resolve_timezone_def truthy_int_def
      bad_time_settings_def friday_settings_def parse_time_25_99 compile_trigger_out_of_range
      Let_def)
  have reached: "setup_calls True (\<lambda>z. True) bot_config ?calls None = Some ?job"
    by (simp add: friday_setup bad)
  have off: "(case schedule disabled_settings of None \<Rightarrow> True | Some c \<Rightarrow> \<not> enabled c) \<or>
         \<not> truthy_int (resolve_target bot_config disabled_settings)"
    by (simp add: disabled_settings_def)
  have on: "schedule evening_settings = Some ?c \<and> enabled ?c \<and>
      truthy_int (resolve_target bot_config evening_settings) \<and> True \<and>
      resolve_timezone bot_config evening_settings = Some ''Europe/Riga'' \<and>
      (\<lambda>z. True) ''Europe/Riga'' \<and>
      compile_trigger (normalise_frequency (frequency ?c)) (fst (parse_time (time ?c)))
        (snd (parse_time (time ?c))) ''Europe/Riga'' = Inr (CronTrigger None 18 0 ''Europe/Riga'')"
    using evening_compiles
    by (simp add: evening_settings_def friday_settings_def resolve_target_def
        resolve_timezone_def truthy_int_def)
  note single = setup_scheduler_at_most_one_trigger [of True "\<lambda>z. True" bot_config ?calls]
  have disabled: "active_triggers (snd (setup_scheduler True (\<lambda>z. True) bot_config
      disabled_settings (setup_calls True (\<lambda>z. True) bot_config ?calls None))) = []"
    using single [THEN conjunct2, THEN conjunct1, rule_format, OF off] .
  have evening: "setup_scheduler True (\<lambda>z. True) bot_config evening_settings
      (setup_calls True (\<lambda>z. True) bot_config ?calls None) =
      (None, Some [(''travel_post_job'', CronTrigger None 18 0 ''Europe/Riga'')])"
    using single [THEN conjunct2, THEN conjunct2, THEN conjunct2, THEN conjunct1,
        rule_format, OF on]
    by (elim conjE)
  have before: "active_triggers (Some ?job) = [CronTrigger (Some ''0,4'') 9 5 ''Europe/Riga'']"
    by (simp add: active_triggers_def)
  have four: "setup_calls True (\<lambda>z. True) bot_config
       [friday_settings, friday_settings, bad_time_settings, evening_settings] None =
     Some [(''travel_post_job'', CronTrigger None 18 0 ''Europe/Riga'')]"
    using evening unfolding reached by (simp add: friday_setup bad)
  show ?thesis
    using disabled evening before four
    unfolding reached by (simp add: active_triggers_def)
qed

section \<open>Properties of the publish pipeline\<close>

lemma deliver_no_image:
  "\<not> truthy_str image_url \<Longrightarrow> deliver e text image_url = ([PublishText text], publish_post e text)"
  by (simp add: deliver_def)

lemma deliver_first_tier:
  "truthy_str image_url \<Longrightarrow>
   photo_sent (send_photo_url e (str_or image_url []) (take 1024 text)) = Some mid \<Longrightarrow>
   deliver e text image_url =
     ([SendPhotoUrl (str_or image_url []) (take 1024 text)], Returns mid)"
  by (simp add: deliver_def Let_def)

lemma deliver_second_tier:
  "truthy_str image_url \<Longrightarrow>
   photo_sent (send_photo_url e (str_or image_url []) (take 1024 text)) = None \<Longrightarrow>
   http_get e (str_or image_url []) = Returns img \<Longrightarrow>
   photo_sent (send_photo_file e img (take 1024 text)) = Some mid \<Longrightarrow>
   deliver e text image_url =
     ([SendPhotoUrl (str_or image_url []) (take 1024 text), Download (str_or image_url []),
       SendPhotoFile img (take 1024 text)], Returns mid)"
  by (simp add: deliver_def Let_def)

lemma deliver_third_tier:
  "truthy_str image_url \<Longrightarrow>
   photo_sent (send_photo_url e (str_or image_url []) (take 1024 text)) = None \<Longrightarrow>
   http_get e (str_or image_url []) = Returns img \<Longrightarrow>
   photo_sent (send_photo_file e img (take 1024 text)) = None \<Longrightarrow>
   deliver e text image_url =
     ([SendPhotoUrl (str_or image_url []) (take 1024 text), Download (str_or image_url []),
       SendPhotoFile img (take 1024 text), PublishText text], publish_post e text)"
  by (simp add: deliver_def Let_def)

lemma deliver_download_fails:
  "truthy_str image_url \<Longrightarrow>
   photo_sent (send_photo_url e (str_or image_url []) (take 1024 text)) = None \<Longrightarrow>
   http_get e (str_or image_url []) = Raises msg \<Longrightarrow>
   deliver e text image_url =
     ([SendPhotoUrl (str_or image_url []) (take 1024 text), Download (str_or image_url []),
       PublishText text], publish_post e text)"
  by (simp add: deliver_def Let_def)

lemma run_ok_delivered:
  assumes "run_generate_and_publish cfg e s destination_override log = (r, sent, log', s')"
    and "ok r"
  shows "\<exists>target out.
     target_chat_id s = Some target \<and> target \<noteq> 0 \<and> truthy_str (OPENAI_API_KEY cfg) \<and>
     generate_travel_post e (run_request s destination_override) = Returns out \<and>
     snd (deliver e (take 4000 (post_text out)) (generate_image e (image_prompt out))) =
       Returns (tg_message_id r) \<and>
     prefix (fst (deliver e (take 4000 (post_text out)) (generate_image e (image_prompt out))))
       sent"
  using assms
  by (auto simp: run_generate_and_publish_def Let_def
      split: option.splits if_splits outcome.splits prod.splits)

text \<open>
  C1. With an image URL present, delivery to the primary channel goes through three tiers
  in this order: the image by URL with the text (cut to 1024 characters) as caption; only
  when that attempt fails, a download of the image and a second \<^verbatim>\<open>sendPhoto\<close> with the
  bytes attached and the same caption; only when that fails too (or the download does),
  the text alone. Without an image the text-only call is the only call. The message id of
  the run is the one returned by the first tier that succeeds.
\<close>

theorem delivery_three_tier_fallback:
  "(\<not> truthy_str image_url \<longrightarrow>
      deliver e text image_url = ([PublishText text], publish_post e text)) \<and>
   (truthy_str image_url \<longrightarrow>
      (let url = str_or image_url []; caption = take 1024 text;
           by_url = photo_sent (send_photo_url e url caption)
       in (\<forall>mid. by_url = Some mid \<longrightarrow>
             deliver e text image_url = ([SendPhotoUrl url caption], Returns mid)) \<and>
          (by_url = None \<longrightarrow>
             (\<forall>img mid. http_get e url = Returns img \<and>
                photo_sent (send_photo_file e img caption) = Some mid \<longrightarrow>
                deliver e text image_url =
                  ([SendPhotoUrl url caption, Download url, SendPhotoFile img caption],
                   Returns mid)) \<and>
             (\<forall>img. http_get e url = Returns img \<and>
                photo_sent (send_photo_file e img caption) = None \<longrightarrow>
                deliver e text image_url =
                  ([SendPhotoUrl url caption, Download url, SendPhotoFile img caption,
                    PublishText text], publish_post e text)) \<and>
             (\<forall>msg. http_get e url = Raises msg \<longrightarrow>
                deliver e text image_url =
                  ([SendPhotoUrl url caption, Download url, PublishText text],
                   publish_post e text))))) \<and>
   (\<forall>cfg s destination_override log r sent log' s'.
      run_generate_and_publish cfg e s destination_override log = (r, sent, log', s') \<and> ok r
      \<longrightarrow>
      (\<exists>out. generate_travel_post e (run_request s destination_override) = Returns out \<and>
         snd (deliver e (take 4000 (post_text out)) (generate_image e (image_prompt out))) =
           Returns (tg_message_id r) \<and>
         prefix (fst (deliver e (take 4000 (post_text out))
                        (generate_image e (image_prompt out)))) sent))"
proof (intro conjI impI allI)
  assume "\<not> truthy_str image_url"
  then show "deliver e text image_url = ([PublishText text], publish_post e text)"
    by (rule deliver_no_image)
next
  assume img: "truthy_str image_url"
  show "let url = str_or image_url []; caption = take 1024 text;
           by_url = photo_sent (send_photo_url e url caption)
       in (\<forall>mid. by_url = Some mid \<longrightarrow>
             deliver e text image_url = ([SendPhotoUrl url caption], Returns mid)) \<and>
          (by_url = None \<longrightarrow>
             (\<forall>img mid. http_get e url = Returns img \<and>
                photo_sent (send_photo_file e img caption) = Some mid \<longrightarrow>
                deliver e text image_url =
                  ([SendPhotoUrl url caption, Download url, SendPhotoFile img caption],
                   Returns mid)) \<and>
             (\<forall>img. http_get e url = Returns img \<and>
                photo_sent (send_photo_file e img caption) = None \<longrightarrow>
                deliver e text image_url =
                  ([SendPhotoUrl url caption, Download url, SendPhotoFile img caption,
                    PublishText text], publish_post e text)) \<and>
             (\<forall>msg. http_get e url = Raises msg \<longrightarrow>
                deliver e text image_url =
                  ([SendPhotoUrl url caption, Download url, PublishText text],
                   publish_post e text)))"
    unfolding Let_def
    by (intro conjI impI allI)
       (simp_all add: img deliver_first_tier deliver_second_tier deliver_third_tier
          deliver_download_fails)
next
  fix cfg s destination_override log r sent log' s'
  assume "run_generate_and_publish cfg e s destination_override log = (r, sent, log', s') \<and> ok r"
  then obtain target out where
    "generate_travel_post e (run_request s destination_override) = Returns out \<and>
     snd (deliver e (take 4000 (post_text out)) (generate_image e (image_prompt out))) =
       Returns (tg_message_id r) \<and>
     prefix (fst (deliver e (take 4000 (post_text out)) (generate_image e (image_prompt out))))
       sent"
    using run_ok_delivered [of cfg e s destination_override log r sent log' s'] by blast
  then show "\<exists>out. generate_travel_post e (run_request s destination_override) = Returns out \<and>
         snd (deliver e (take 4000 (post_text out)) (generate_image e (image_prompt out))) =
           Returns (tg_message_id r) \<and>
         prefix (fst (deliver e (take 4000 (post_text out))
                        (generate_image e (image_prompt out)))) sent"
    by (rule exI)
qed

lemmas pipeline_eval_simps =
  run_generate_and_publish_def run_request_def run_destination_def run_rubric_def run_tone_def
  generate_image_def deliver_def photo_sent_def crosspost_def append_log_def new_entry_def
  truthy_str_def truthy_int_def str_or_def py_strip_def is_space_def Let_def

theorem delivery_three_tier_fallback_witness:
  "deliver example_env ''Hello from Riga'' (Some ''https://img.example/1.png'') =
     ([SendPhotoUrl ''https://img.example/1.png'' ''Hello from Riga'',
       Download ''https://img.example/1.png'',
       SendPhotoFile ''JPEG'' ''Hello from Riga'',
       PublishText ''Hello from Riga''], Returns (Some 501)) \<and>
   deliver example_env ''Hello from Riga'' None =
     ([PublishText ''Hello from Riga''], Returns (Some 501)) \<and>
   tg_message_id (fst (run_generate_and_publish bot_config example_env friday_settings None []))
     = Some 501 \<and>
   deliver (example_env\<lparr>send_photo_url := (\<lambda>url caption. Returns (TgReply True True (Some 77)))\<rparr>)
       ''Hello from Riga'' (Some ''https://img.example/1.png'') =
     ([SendPhotoUrl ''https://img.example/1.png'' ''Hello from Riga''], Returns (Some 77)) \<and>
   deliver (example_env\<lparr>send_photo_file :=
         (\<lambda>img_data caption. Returns (TgReply True True (Some 78)))\<rparr>)
       ''Hello from Riga'' (Some ''https://img.example/1.png'') =
     ([SendPhotoUrl ''https://img.example/1.png'' ''Hello from Riga'',
       Download ''https://img.example/1.png'',
       SendPhotoFile ''JPEG'' ''Hello from Riga''], Returns (Some 78))"
proof -
  note tiers = delivery_three_tier_fallback [of _ example_env "''Hello from Riga''"]
  have img: "truthy_str (Some ''https://img.example/1.png'')"
    by (simp add: truthy_str_def)
  have "deliver example_env ''Hello from Riga'' (Some ''https://img.example/1.png'') =
     ([SendPhotoUrl ''https://img.example/1.png'' ''Hello from Riga'',
       Download ''https://img.example/1.png'',
       SendPhotoFile ''JPEG'' ''Hello from Riga'',
       PublishText ''Hello from Riga''], Returns (Some 501))"
    using tiers [of "Some ''https://img.example/1.png''", THEN conjunct2, THEN conjunct1] img
    by (simp add: example_env_def photo_sent_def str_or_def Let_def)
  moreover have "deliver example_env ''Hello from Riga'' None =
     ([PublishText ''Hello from Riga''], Returns (Some 501))"
    using tiers [of None, THEN conjunct1]
    by (simp add: example_env_def truthy_str_def)
  moreover have "tg_message_id (fst (run_generate_and_publish bot_config example_env
      friday_settings None [])) = Some 501"
    by (simp add: pipeline_eval_simps example_env_def friday_settings_def bot_config_def)
  moreover have "deliver
      (example_env\<lparr>send_photo_url := (\<lambda>url caption. Returns (TgReply True True (Some 77)))\<rparr>)
       ''Hello from Riga'' (Some ''https://img.example/1.png'') =
     ([SendPhotoUrl ''https://img.example/1.png'' ''Hello from Riga''], Returns (Some 77))"
    using delivery_three_tier_fallback
      [of "Some ''https://img.example/1.png''"
        "example_env\<lparr>send_photo_url :=
           (\<lambda>url caption. Returns (TgReply True True (Some 77)))\<rparr>"
        "''Hello from Riga''", THEN conjunct2, THEN conjunct1] img
    by (simp add: example_env_def photo_sent_def str_or_def Let_def)
  moreover have "deliver (example_env\<lparr>send_photo_file :=
         (\<lambda>img_data caption. Returns (TgReply True True (Some 78)))\<rparr>)
       ''Hello from Riga'' (Some ''https://img.example/1.png'') =
     ([SendPhotoUrl ''https://img.example/1.png'' ''Hello from Riga'',
       Download ''https://img.example/1.png'',
       SendPhotoFile ''JPEG'' ''Hello from Riga''], Returns (Some 78))"
    using delivery_three_tier_fallback
      [of "Some ''https://img.example/1.png''"
        "example_env\<lparr>send_photo_file :=
           (\<lambda>img_data caption. Returns (TgReply True True (Some 78)))\<rparr>"
        "''Hello from Riga''", THEN conjunct2, THEN conjunct1] img
    by (simp add: example_env_def photo_sent_def str_or_def Let_def)
  ultimately show ?thesis by simp
qed

lemma run_error_iff_not_ok:
  "run_generate_and_publish cfg e s destination_override log = (r, sent, log', s') \<Longrightarrow>
   (error r \<noteq> None) = (\<not> ok r)"
  by (auto simp: run_generate_and_publish_def Let_def
      split: option.splits if_splits outcome.splits prod.splits)

lemma run_image_failure_is_no_image:
  "run_generate_and_publish cfg (e\<lparr>generate_images := (\<lambda>prompt. Raises msg)\<rparr>) s
       destination_override log =
   run_generate_and_publish cfg (e\<lparr>generate_images := (\<lambda>prompt. Returns [])\<rparr>) s
       destination_override log"
proof -
  have g: "\<And>prompt. generate_image (e\<lparr>generate_images := (\<lambda>prompt. Raises msg)\<rparr>) prompt = None"
    "\<And>prompt. generate_image (e\<lparr>generate_images := (\<lambda>prompt. Returns [])\<rparr>) prompt = None"
    by (simp_all add: generate_image_def)
  have d: "\<And>f text image_url.
      deliver (e\<lparr>generate_images := f\<rparr>) text image_url = deliver e text image_url"
    by (simp add: deliver_def Let_def split: option.splits outcome.splits)
  have c: "\<And>f text image_url l.
      crosspost cfg (e\<lparr>generate_images := f\<rparr>) s text image_url l =
      crosspost cfg e s text image_url l"
    by (simp add: crosspost_def split: option.splits outcome.splits)
  show ?thesis
    by (simp add: run_generate_and_publish_def g d c Let_def
        cong: option.case_cong outcome.case_cong if_cong)
qed

lemma run_image_failure_ok:
  assumes "run_generate_and_publish cfg e s destination_override log = (r, sent, log', s')"
    and "generate_travel_post e (run_request s destination_override) = Returns out"
    and "generate_images e (image_prompt out) = Raises msg"
  shows "ok r \<longleftrightarrow> truthy_int (target_chat_id s) \<and> truthy_str (OPENAI_API_KEY cfg) \<and>
           (\<exists>mid. publish_post e (take 4000 (post_text out)) = Returns mid)"
  using assms
  by (auto simp: run_generate_and_publish_def generate_image_def deliver_def truthy_str_def
      truthy_int_def Let_def
      split: option.splits if_splits outcome.splits prod.splits)

lemma crosspost_vk_raises:
  "crosspost cfg (e\<lparr>vk_publish_post := (\<lambda>text image_url. Raises msg)\<rparr>) s text image_url log =
     (None,
      if crosspost_vk s \<and> truthy_str (VK_API_KEY cfg) \<and> truthy_str (VK_GROUP_ID cfg)
      then [VkPublish text image_url] else [],
      log)"
  by (simp add: crosspost_def split: option.splits outcome.splits)

lemma run_vk_failure:
  assumes run: "run_generate_and_publish cfg e s destination_override log = (r, sent, log', s')"
    and fail: "run_generate_and_publish cfg
        (e\<lparr>vk_publish_post := (\<lambda>text image_url. Raises msg)\<rparr>) s destination_override log =
        (r2, sent2, log2, s2)"
  shows "ok r2 = ok r \<and> tg_message_id r2 = tg_message_id r \<and> error r2 = error r \<and>
         vk_post_id r2 = None \<and>
         (ok r2 \<longrightarrow> (\<exists>entry. log2 = log @ [entry] \<and> map_of entry ''vk_post_id'' = Some JNull))"
proof -
  have d: "\<And>text image_url.
      deliver (e\<lparr>vk_publish_post := (\<lambda>text image_url. Raises msg)\<rparr>) text image_url =
      deliver e text image_url"
    by (simp add: deliver_def Let_def split: option.splits outcome.splits)
  have g: "\<And>prompt.
      generate_image (e\<lparr>vk_publish_post := (\<lambda>text image_url. Raises msg)\<rparr>) prompt =
      generate_image e prompt"
    by (simp add: generate_image_def)
  show ?thesis
    using run fail
    by (auto simp: run_generate_and_publish_def d g crosspost_vk_raises append_log_def
        new_entry_def Let_def
        split: option.splits if_splits outcome.splits prod.splits)
qed

lemma run_ok_iff:
  assumes "run_generate_and_publish cfg e s destination_override log = (r, sent, log', s')"
  shows "ok r \<longleftrightarrow>
     (\<exists>target out. target_chat_id s = Some target \<and> target \<noteq> 0 \<and>
        truthy_str (OPENAI_API_KEY cfg) \<and>
        generate_travel_post e (run_request s destination_override) = Returns out \<and>
        snd (deliver e (take 4000 (post_text out)) (generate_image e (image_prompt out))) =
          Returns (tg_message_id r))"
  using assms
  by (auto simp: run_generate_and_publish_def Let_def
      split: option.splits if_splits outcome.splits prod.splits)

lemma run_log_entry:
  assumes "run_generate_and_publish cfg e s destination_override log = (r, sent, log', s')"
    and "ok r"
  shows "\<exists>target. target_chat_id s = Some target \<and>
     log' = log @ [new_entry (utcnow e) target
                     (case tg_message_id r of None \<Rightarrow> 0 | Some m \<Rightarrow> m)
                     (run_rubric s) (run_destination s destination_override) (run_tone s)
                     (case vk_post_id r of None \<Rightarrow> JNull | Some v \<Rightarrow> JStr v)]"
  using assms
  by (auto simp: run_generate_and_publish_def crosspost_def append_log_def new_entry_def Let_def
      split: option.splits if_splits outcome.splits prod.splits)

lemma run_failed_keeps:
  assumes "run_generate_and_publish cfg e s destination_override log = (r, sent, log', s')"
    and "\<not> ok r"
  shows "log' = log \<and> s' = s \<and> tg_message_id r = None \<and> vk_post_id r = None"
  using assms
  by (auto simp: run_generate_and_publish_def Let_def
      split: option.splits if_splits outcome.splits prod.splits)

text \<open>
  C2, as the code has it. \<^verbatim>\<open>ok\<close> is true exactly when the target chat and the API key
  are set, the text generator returned and the delivery step returned without raising;
  \<^verbatim>\<open>tg_message_id\<close> is then the id that step returned, which is null when the answer of
  the text-only publisher carries none. A failing image generator is the same run as one
  that returns no image, so \<^verbatim>\<open>ok\<close> then depends on the text-only call alone; a failing
  VK call changes neither \<^verbatim>\<open>ok\<close> nor the message id and leaves the appended log entry
  with a null \<^verbatim>\<open>vk_post_id\<close>; and \<^verbatim>\<open>error\<close> is set exactly when \<^verbatim>\<open>ok\<close> is false.
  A run that ends with \<^verbatim>\<open>ok\<close> true appends exactly one log entry, which records the
  message id of the result, 0 when that id is null, and the VK post id of the result; a
  run that ends with \<^verbatim>\<open>ok\<close> false leaves the log and the settings as they were.
\<close>

theorem run_result_semantics:
  assumes run: "run_generate_and_publish cfg e s destination_override log = (r, sent, log', s')"
  shows
    "(ok r \<longleftrightarrow>
       (\<exists>target out. target_chat_id s = Some target \<and> target \<noteq> 0 \<and>
          truthy_str (OPENAI_API_KEY cfg) \<and>
          generate_travel_post e (run_request s destination_override) = Returns out \<and>
          snd (deliver e (take 4000 (post_text out)) (generate_image e (image_prompt out))) =
            Returns (tg_message_id r))) \<and>
     (\<forall>msg. run_generate_and_publish cfg (e\<lparr>generate_images := (\<lambda>prompt. Raises msg)\<rparr>) s
               destination_override log =
            run_generate_and_publish cfg (e\<lparr>generate_images := (\<lambda>prompt. Returns [])\<rparr>) s
               destination_override log) \<and>
     (\<forall>out msg. generate_travel_post e (run_request s destination_override) = Returns out \<and>
        generate_images e (image_prompt out) = Raises msg \<longrightarrow>
        (ok r \<longleftrightarrow> truthy_int (target_chat_id s) \<and> truthy_str (OPENAI_API_KEY cfg) \<and>
           (\<exists>mid. publish_post e (take 4000 (post_text out)) = Returns mid))) \<and>
     (\<forall>msg r2 sent2 log2 s2.
        run_generate_and_publish cfg (e\<lparr>vk_publish_post := (\<lambda>text image_url. Raises msg)\<rparr>) s
          destination_override log = (r2, sent2, log2, s2) \<longrightarrow>
        ok r2 = ok r \<and> tg_message_id r2 = tg_message_id r \<and> vk_post_id r2 = None \<and>
        (ok r2 \<longrightarrow>
           (\<exists>entry. log2 = log @ [entry] \<and> map_of entry ''vk_post_id'' = Some JNull))) \<and>
     ((error r \<noteq> None) = (\<not> ok r)) \<and>
     (ok r \<longrightarrow>
        (\<exists>target. target_chat_id s = Some target \<and>
           log' = log @ [new_entry (utcnow e) target
                           (case tg_message_id r of None \<Rightarrow> 0 | Some m \<Rightarrow> m)
                           (run_rubric s) (run_destination s destination_override) (run_tone s)
                           (case vk_post_id r of None \<Rightarrow> JNull | Some v \<Rightarrow> JStr v)])) \<and>
     (\<not> ok r \<longrightarrow> log' = log \<and> s' = s \<and> tg_message_id r = None \<and> vk_post_id r = None)"
proof -
  have a: "ok r \<longleftrightarrow>
       (\<exists>target out. target_chat_id s = Some target \<and> target \<noteq> 0 \<and>
          truthy_str (OPENAI_API_KEY cfg) \<and>
          generate_travel_post e (run_request s destination_override) = Returns out \<and>
          snd (deliver e (take 4000 (post_text out)) (generate_image e (image_prompt out))) =
            Returns (tg_message_id r))"
    using run by (rule run_ok_iff)
  have b: "\<forall>msg. run_generate_and_publish cfg (e\<lparr>generate_images := (\<lambda>prompt. Raises msg)\<rparr>) s
               destination_override log =
        run_generate_and_publish cfg (e\<lparr>generate_images := (\<lambda>prompt. Returns [])\<rparr>) s
               destination_override log"
    by (intro allI run_image_failure_is_no_image)
  have c: "\<forall>out msg. generate_travel_post e (run_request s destination_override) = Returns out \<and>
        generate_images e (image_prompt out) = Raises msg \<longrightarrow>
        (ok r \<longleftrightarrow> truthy_int (target_chat_id s) \<and> truthy_str (OPENAI_API_KEY cfg) \<and>
           (\<exists>mid. publish_post e (take 4000 (post_text out)) = Returns mid))"
  proof (intro allI impI)
    fix out msg
    assume "generate_travel_post e (run_request s destination_override) = Returns out \<and>
        generate_images e (image_prompt out) = Raises msg"
    then show "ok r \<longleftrightarrow> truthy_int (target_chat_id s) \<and> truthy_str (OPENAI_API_KEY cfg) \<and>
           (\<exists>mid. publish_post e (take 4000 (post_text out)) = Returns mid)"
      using run_image_failure_ok [OF run, of out msg] by (elim conjE) simp
  qed
  have d: "\<forall>msg r2 sent2 log2 s2.
        run_generate_and_publish cfg (e\<lparr>vk_publish_post := (\<lambda>text image_url. Raises msg)\<rparr>) s
          destination_override log = (r2, sent2, log2, s2) \<longrightarrow>
        ok r2 = ok r \<and> tg_message_id r2 = tg_message_id r \<and> vk_post_id r2 = None \<and>
        (ok r2 \<longrightarrow>
           (\<exists>entry. log2 = log @ [entry] \<and> map_of entry ''vk_post_id'' = Some JNull))"
  proof (intro allI, rule impI)
    fix msg r2 sent2 log2 s2
    assume fail: "run_generate_and_publish cfg
        (e\<lparr>vk_publish_post := (\<lambda>text image_url. Raises msg)\<rparr>) s
          destination_override log = (r2, sent2, log2, s2)"
    from run_vk_failure [OF run fail]
    show "ok r2 = ok r \<and> tg_message_id r2 = tg_message_id r \<and> vk_post_id r2 = None \<and>
        (ok r2 \<longrightarrow>
           (\<exists>entry. log2 = log @ [entry] \<and> map_of entry ''vk_post_id'' = Some JNull))"
      by simp
  qed
  have e: "(error r \<noteq> None) = (\<not> ok r)"
    using run by (rule run_error_iff_not_ok)
  have f: "ok r \<longrightarrow>
        (\<exists>target. target_chat_id s = Some target \<and>
           log' = log @ [new_entry (utcnow e) target
                           (case tg_message_id r of None \<Rightarrow> 0 | Some m \<Rightarrow> m)
                           (run_rubric s) (run_destination s destination_override) (run_tone s)
                           (case vk_post_id r of None \<Rightarrow> JNull | Some v \<Rightarrow> JStr v)])"
    using run_log_entry [OF run] by (rule impI)
  have g: "\<not> ok r \<longrightarrow>
      log' = log \<and> s' = s \<and> tg_message_id r = None \<and> vk_post_id r = None"
    using run_failed_keeps [OF run] by (rule impI)
  show ?thesis
    by (rule conjI [OF a conjI [OF b conjI [OF c conjI [OF d conjI [OF e conjI [OF f g]]]]]])
qed

text \<open>
  C2 as stated does not hold: with no image and a publisher answer that carries no
  message id, the run ends with \<^verbatim>\<open>ok\<close> true and a null \<^verbatim>\<open>tg_message_id\<close>, and the log
  entry records message id 0.
\<close>

theorem run_ok_without_message_id:
  "run_generate_and_publish bot_config silent_env friday_settings None [] =
     (\<lparr>ok = True, tg_message_id = None, vk_post_id = None, error = None\<rparr>,
      [PublishText ''Hello from Riga''],
      [new_entry ''2024-05-10T06:05:00Z'' (-1001234) 0 ''FOOD'' ''Riga'' ''FRIENDLY'' JNull],
      friday_settings\<lparr>last_used := Some \<lparr>lu_rubric = Some ''FOOD'',
         lu_destination = Some ''Riga'', lu_date = Some ''2024-05-10''\<rparr>\<rparr>)"
  by (simp add: pipeline_eval_simps silent_env_def example_env_def friday_settings_def
      bot_config_def)

theorem run_result_semantics_witness:
  "run_generate_and_publish bot_config example_env vk_settings None [] =
     (\<lparr>ok = True, tg_message_id = Some 501, vk_post_id = None, error = None\<rparr>,
      [SendPhotoUrl ''https://img.example/1.png'' ''Hello from Riga'',
       Download ''https://img.example/1.png'',
       SendPhotoFile ''JPEG'' ''Hello from Riga'',
       PublishText ''Hello from Riga'',
       VkPublish ''Hello from Riga'' (Some ''https://img.example/1.png'')],
      [new_entry ''2024-05-10T06:05:00Z'' (-1001234) 501 ''FOOD'' ''Riga'' ''FRIENDLY'' JNull],
      vk_settings\<lparr>last_used := Some \<lparr>lu_rubric = Some ''FOOD'',
         lu_destination = Some ''Riga'', lu_date = Some ''2024-05-10''\<rparr>\<rparr>) \<and>
   error (fst (run_generate_and_publish bot_config example_env vk_settings None [])) = None \<and>
   ok (fst (run_generate_and_publish bot_config
        (example_env\<lparr>generate_images := (\<lambda>prompt. Raises ''quota'')\<rparr>) vk_settings None [])) \<and>
   run_generate_and_publish bot_config
       (silent_env\<lparr>vk_publish_post := (\<lambda>text image_url. Returns (Some 77))\<rparr>) vk_settings
       None example_log =
     (\<lparr>ok = True, tg_message_id = None, vk_post_id = Some ''77'', error = None\<rparr>,
      [PublishText ''Hello from Riga'', VkPublish ''Hello from Riga'' None],
      example_log @
      [new_entry ''2024-05-10T06:05:00Z'' (-1001234) 0 ''FOOD'' ''Riga'' ''FRIENDLY''
         (JStr ''77'')],
      vk_settings\<lparr>last_used := Some \<lparr>lu_rubric = Some ''FOOD'',
         lu_destination = Some ''Riga'', lu_date = Some ''2024-05-10''\<rparr>\<rparr>) \<and>
   run_generate_and_publish bot_config
       (silent_env\<lparr>publish_post := (\<lambda>text. Raises ''chat not found'')\<rparr>) vk_settings
       None example_log =
     (\<lparr>ok = False, tg_message_id = None, vk_post_id = None,
        error = Some (Exception ''chat not found'')\<rparr>,
      [PublishText ''Hello from Riga''], example_log, vk_settings)"
proof -
  let ?r = "\<lparr>ok = True, tg_message_id = Some 501, vk_post_id = None, error = None\<rparr>"
  have run: "run_generate_and_publish bot_config example_env vk_settings None [] =
     (?r,
      [SendPhotoUrl ''https://img.example/1.png'' ''Hello from Riga'',
       Download ''https://img.example/1.png'',
       SendPhotoFile ''JPEG'' ''Hello from Riga'',
       PublishText ''Hello from Riga'',
       VkPublish ''Hello from Riga'' (Some ''https://img.example/1.png'')],
      [new_entry ''2024-05-10T06:05:00Z'' (-1001234) 501 ''FOOD'' ''Riga'' ''FRIENDLY'' JNull],
      vk_settings\<lparr>last_used := Some \<lparr>lu_rubric = Some ''FOOD'',
         lu_destination = Some ''Riga'', lu_date = Some ''2024-05-10''\<rparr>\<rparr>)"
    by (simp add: pipeline_eval_simps example_env_def vk_settings_def friday_settings_def
        bot_config_def)
  note sem = run_result_semantics [OF run]
  from sem have "(error ?r \<noteq> None) = (\<not> ok ?r)" by (elim conjE)
  then have "error (fst (run_generate_and_publish bot_config example_env vk_settings None []))
      = None"
    using run by simp
  moreover have "ok (fst (run_generate_and_publish bot_config
        (example_env\<lparr>generate_images := (\<lambda>prompt. Raises ''quota'')\<rparr>) vk_settings None []))"
    by (simp add: pipeline_eval_simps example_env_def vk_settings_def friday_settings_def
        bot_config_def)
  moreover have "run_generate_and_publish bot_config
       (silent_env\<lparr>vk_publish_post := (\<lambda>text image_url. Returns (Some 77))\<rparr>) vk_settings
       None example_log =
     (\<lparr>ok = True, tg_message_id = None, vk_post_id = Some ''77'', error = None\<rparr>,
      [PublishText ''Hello from Riga'', VkPublish ''Hello from Riga'' None],
      example_log @
      [new_entry ''2024-05-10T06:05:00Z'' (-1001234) 0 ''FOOD'' ''Riga'' ''FRIENDLY''
         (JStr ''77'')],
      vk_settings\<lparr>last_used := Some \<lparr>lu_rubric = Some ''FOOD'',
         lu_destination = Some ''Riga'', lu_date = Some ''2024-05-10''\<rparr>\<rparr>)"
    by (simp add: pipeline_eval_simps silent_env_def example_env_def vk_settings_def
        friday_settings_def bot_config_def py_str_def digit_char_def)
  moreover have "run_generate_and_publish bot_config
       (silent_env\<lparr>publish_post := (\<lambda>text. Raises ''chat not found'')\<rparr>) vk_settings
       None example_log =
     (\<lparr>ok = False, tg_message_id = None, vk_post_id = None,
        error = Some (Exception ''chat not found'')\<rparr>,
      [PublishText ''Hello from Riga''], example_log, vk_settings)"
    by (simp add: pipeline_eval_simps silent_env_def example_env_def vk_settings_def
        friday_settings_def bot_config_def)
  ultimately show ?thesis using run by simp
qed

end
